theory Spec2Isabelle
  imports Complex_Main
begin

section \<open>Go strings and the library functions the collectors call\<close>

text \<open>
  A Go string is a sequence of bytes: \<^typ>\<open>string\<close>, a list of 8-bit characters.
  \<^verbatim>\<open>len\<close> counts bytes and \<^verbatim>\<open>s[:n]\<close> slices bytes. The functions of this section are those
  of Go's \<^verbatim>\<open>strings\<close> package that the collectors use, on bytes as Go has them.
\<close>

abbreviation TAB :: char where
  "TAB \<equiv> CHR 0x09"

definition HasPrefix :: "string \<Rightarrow> string \<Rightarrow> bool" where
  "HasPrefix s p = (take (length p) s = p)"

definition HasSuffix :: "string \<Rightarrow> string \<Rightarrow> bool" where
  "HasSuffix s p = (length p \<le> length s \<and> drop (length s - length p) s = p)"

definition TrimPrefix :: "string \<Rightarrow> string \<Rightarrow> string" where
  "TrimPrefix s p = (if HasPrefix s p then drop (length p) s else s)"

definition TrimSuffix :: "string \<Rightarrow> string \<Rightarrow> string" where
  "TrimSuffix s p = (if HasSuffix s p then take (length s - length p) s else s)"

text \<open>
  \<^verbatim>\<open>strings.ToLower\<close> on a string of ASCII bytes: the letters \<^verbatim>\<open>A\<close> to \<^verbatim>\<open>Z\<close> go to \<^verbatim>\<open>a\<close> to
  \<^verbatim>\<open>z\<close>. On a string with a byte from \<^verbatim>\<open>0x80\<close> on, Go maps the runes by the Unicode
  tables (U+0130 and U+212A go to \<^verbatim>\<open>i\<close> and \<^verbatim>\<open>k\<close>, a byte that is no UTF-8 becomes
  U+FFFD); these tables are not in this development, and here such bytes are kept. The
  identifiers and class codes of the PCI collector are hexadecimal.
\<close>

definition lowerByte :: "char \<Rightarrow> char" where
  "lowerByte c =
     (case map_of (zip ''ABCDEFGHIJKLMNOPQRSTUVWXYZ'' ''abcdefghijklmnopqrstuvwxyz'') c of
        Some l \<Rightarrow> l
      | None \<Rightarrow> c)"

definition ToLower :: "string \<Rightarrow> string" where
  "ToLower s = map lowerByte s"

text \<open>
  \<^verbatim>\<open>strings.TrimSpace\<close> removes leading, then trailing, white space as \<^verbatim>\<open>unicode.IsSpace\<close>
  defines it. \<open>space_runes\<close> lists the UTF-8 encodings of those code points: U+0009 to
  U+000D, U+0020, U+0085, U+00A0, U+1680, U+2000 to U+200A, U+2028, U+2029, U+202F, U+205F
  and U+3000.
\<close>

definition space_runes :: "string list" where
  "space_runes =
     [[CHR 0x09], [CHR 0x0A], [CHR 0x0B], [CHR 0x0C], [CHR 0x0D], [CHR 0x20],
      [CHR 0xC2, CHR 0x85], [CHR 0xC2, CHR 0xA0],
      [CHR 0xE1, CHR 0x9A, CHR 0x80],
      [CHR 0xE2, CHR 0x80, CHR 0x80], [CHR 0xE2, CHR 0x80, CHR 0x81],
      [CHR 0xE2, CHR 0x80, CHR 0x82], [CHR 0xE2, CHR 0x80, CHR 0x83],
      [CHR 0xE2, CHR 0x80, CHR 0x84], [CHR 0xE2, CHR 0x80, CHR 0x85],
      [CHR 0xE2, CHR 0x80, CHR 0x86], [CHR 0xE2, CHR 0x80, CHR 0x87],
      [CHR 0xE2, CHR 0x80, CHR 0x88], [CHR 0xE2, CHR 0x80, CHR 0x89],
      [CHR 0xE2, CHR 0x80, CHR 0x8A],
      [CHR 0xE2, CHR 0x80, CHR 0xA8], [CHR 0xE2, CHR 0x80, CHR 0xA9],
      [CHR 0xE2, CHR 0x80, CHR 0xAF],
      [CHR 0xE2, CHR 0x81, CHR 0x9F],
      [CHR 0xE3, CHR 0x80, CHR 0x80]]"

text \<open>The number of bytes of the rune of \<open>rs\<close> that \<open>s\<close> starts with; 0 when there is none.\<close>

definition rune_len :: "string list \<Rightarrow> string \<Rightarrow> nat" where
  "rune_len rs s = (case find (HasPrefix s) rs of Some r \<Rightarrow> length r | None \<Rightarrow> 0)"

function trim_runes :: "string list \<Rightarrow> string \<Rightarrow> string" where
  "trim_runes rs s =
     (if rune_len rs s = 0 \<or> s = [] then s else trim_runes rs (drop (rune_len rs s) s))"
  by pat_completeness auto
termination
  by (relation "measure (\<lambda>(rs, s). length s)") auto

definition TrimLeftSpace :: "string \<Rightarrow> string" where
  "TrimLeftSpace s = trim_runes space_runes s"

definition TrimRightSpace :: "string \<Rightarrow> string" where
  "TrimRightSpace s = rev (trim_runes (map rev space_runes) (rev s))"

definition TrimSpace :: "string \<Rightarrow> string" where
  "TrimSpace s = TrimRightSpace (TrimLeftSpace s)"

text \<open>
  \<^verbatim>\<open>strings.SplitN(s, sep, 2)\<close> for a separator that is not empty: \<open>s\<close> alone when \<open>sep\<close>
  does not occur in it, otherwise the text before the leftmost occurrence and the text
  after it.
\<close>

fun cut :: "string \<Rightarrow> string \<Rightarrow> string \<Rightarrow> (string \<times> string) option" where
  "cut sep acc [] = None"
| "cut sep acc (c # cs) =
     (if HasPrefix (c # cs) sep then Some (rev acc, drop (length sep) (c # cs))
      else cut sep (c # acc) cs)"

definition SplitN2 :: "string \<Rightarrow> string \<Rightarrow> string list" where
  "SplitN2 s sep = (case cut sep [] s of None \<Rightarrow> [s] | Some (a, b) \<Rightarrow> [a, b])"

text \<open>
  \<^verbatim>\<open>utf8.ValidString\<close>: the string is a sequence of well-formed UTF-8 encodings. A first byte
  below \<^verbatim>\<open>0x80\<close> stands alone; \<^verbatim>\<open>0xC2\<close> to \<^verbatim>\<open>0xDF\<close> takes one continuation byte,
  \<^verbatim>\<open>0xE0\<close> to \<^verbatim>\<open>0xEF\<close> two and \<^verbatim>\<open>0xF0\<close> to \<^verbatim>\<open>0xF4\<close> three, each in \<^verbatim>\<open>0x80\<close> to \<^verbatim>\<open>0xBF\<close>, with
  the narrower range of the first continuation byte after \<^verbatim>\<open>0xE0\<close>, \<^verbatim>\<open>0xED\<close>, \<^verbatim>\<open>0xF0\<close> and
  \<^verbatim>\<open>0xF4\<close> that excludes overlong forms, surrogates and code points beyond U+10FFFF. No
  other byte starts an encoding.
\<close>

definition byte_between :: "char \<Rightarrow> nat \<Rightarrow> nat \<Rightarrow> bool" where
  "byte_between c lo hi = (lo \<le> of_char c \<and> of_char c \<le> hi)"

fun ValidString :: "string \<Rightarrow> bool" where
  "ValidString [] = True"
| "ValidString (c # cs) =
     (if byte_between c 0x00 0x7F then ValidString cs
      else if byte_between c 0xC2 0xDF then
        (case cs of
           c1 # r \<Rightarrow> byte_between c1 0x80 0xBF \<and> ValidString r
         | _ \<Rightarrow> False)
      else if byte_between c 0xE0 0xEF then
        (case cs of
           c1 # c2 # r \<Rightarrow>
             byte_between c1 (if c = CHR 0xE0 then 0xA0 else 0x80)
               (if c = CHR 0xED then 0x9F else 0xBF)
             \<and> byte_between c2 0x80 0xBF \<and> ValidString r
         | _ \<Rightarrow> False)
      else if byte_between c 0xF0 0xF4 then
        (case cs of
           c1 # c2 # c3 # r \<Rightarrow>
             byte_between c1 (if c = CHR 0xF0 then 0x90 else 0x80)
               (if c = CHR 0xF4 then 0x8F else 0xBF)
             \<and> byte_between c2 0x80 0xBF \<and> byte_between c3 0x80 0xBF \<and> ValidString r
         | _ \<Rightarrow> False)
      else False)"

section \<open>Numbers: \<^verbatim>\<open>float64\<close> and \<^verbatim>\<open>strconv.ParseFloat\<close>\<close>

text \<open>
  A \<^verbatim>\<open>float64\<close> is an infinity, a NaN, or a number. \<open>Num q\<close> stands for the \<^verbatim>\<open>float64\<close>
  nearest to the rational \<open>q\<close>; the rounding itself is not carried out, so \<open>Num q\<close> is the
  value itself whenever \<open>q\<close> is a \<^verbatim>\<open>float64\<close>, as the integers and short decimals of this
  development are.
\<close>

datatype float64 = Num rat | PosInf | NegInf | NaN

datatype error =
    ErrSyntax
  | ErrRange
  | UnknownPowerState string
  | UnknownSystemdState string
  | UnknownSystemdSubState string
  | UnknownSystemdLoadState string

fun isOK :: "error + 'a \<Rightarrow> bool" where
  "isOK (Inr v) = True"
| "isOK (Inl e) = False"

text \<open>
  \<^verbatim>\<open>strconv.ParseFloat(s, 64)\<close>, after the Go library (\<^verbatim>\<open>strconv/atof.go\<close>): the special
  values by \<^verbatim>\<open>special\<close>, then a decimal or hexadecimal mantissa with an optional exponent by
  \<^verbatim>\<open>readFloat\<close>, underscores between digits checked by \<^verbatim>\<open>underscoreOK\<close>. The whole string
  must be consumed. A value that rounds beyond the largest \<^verbatim>\<open>float64\<close> is a range error.
\<close>

definition digit_of :: "char \<Rightarrow> nat option" where
  "digit_of c = map_of (zip ''0123456789'' [0, 1, 2, 3, 4, 5, 6, 7, 8, 9]) c"

definition hexletter_of :: "char \<Rightarrow> nat option" where
  "hexletter_of c = map_of (zip ''abcdefABCDEF'' [10, 11, 12, 13, 14, 15, 10, 11, 12, 13, 14, 15]) c"

fun commonPrefixLenIgnoreCase :: "string \<Rightarrow> string \<Rightarrow> nat" where
  "commonPrefixLenIgnoreCase (c # cs) (p # ps) =
     (if lowerByte c = p then Suc (commonPrefixLenIgnoreCase cs ps) else 0)"
| "commonPrefixLenIgnoreCase cs ps = 0"

text \<open>The value and the number of bytes consumed, when \<open>s\<close> starts with a special value.\<close>

definition infinity_len :: "string \<Rightarrow> nat" where
  "infinity_len s =
     (let n = commonPrefixLenIgnoreCase s ''infinity'' in if 3 < n \<and> n < 8 then 3 else n)"

definition special :: "string \<Rightarrow> (float64 \<times> nat) option" where
  "special s =
     (case s of
        [] \<Rightarrow> None
      | c # cs \<Rightarrow>
          if c = CHR ''+'' \<or> c = CHR ''-'' then
            (if infinity_len cs = 3 \<or> infinity_len cs = 8
             then Some (if c = CHR ''-'' then NegInf else PosInf, 1 + infinity_len cs)
             else None)
          else if c = CHR ''i'' \<or> c = CHR ''I'' then
            (if infinity_len s = 3 \<or> infinity_len s = 8 then Some (PosInf, infinity_len s)
             else None)
          else if c = CHR ''n'' \<or> c = CHR ''N'' then
            (if commonPrefixLenIgnoreCase s ''nan'' = 3 then Some (NaN, 3) else None)
          else None)"

text \<open>
  The mantissa loop of \<^verbatim>\<open>readFloat\<close>: \<open>m\<close> is the number the digits read so far spell in
  the base, \<open>fd\<close> counts the digits after the point. It returns them with \<^verbatim>\<open>sawdigits\<close> and
  the text left.
\<close>

fun scan_mantissa ::
  "bool \<Rightarrow> bool \<Rightarrow> bool \<Rightarrow> nat \<Rightarrow> nat \<Rightarrow> string \<Rightarrow> nat \<times> nat \<times> bool \<times> string" where
  "scan_mantissa hex sawdot sawdigits m fd [] = (m, fd, sawdigits, [])"
| "scan_mantissa hex sawdot sawdigits m fd (c # cs) =
     (if c = CHR ''_'' then scan_mantissa hex sawdot sawdigits m fd cs
      else if c = CHR ''.'' then
        (if sawdot then (m, fd, sawdigits, c # cs)
         else scan_mantissa hex True sawdigits m fd cs)
      else
        (case (case digit_of c of Some d \<Rightarrow> Some d
               | None \<Rightarrow> if hex then hexletter_of c else None) of
           Some d \<Rightarrow>
             scan_mantissa hex sawdot True ((if hex then 16 else 10) * m + d)
               (if sawdot then Suc fd else fd) cs
         | None \<Rightarrow> (m, fd, sawdigits, c # cs)))"

fun scan_exponent :: "nat \<Rightarrow> string \<Rightarrow> nat \<times> string" where
  "scan_exponent e [] = (e, [])"
| "scan_exponent e (c # cs) =
     (if c = CHR ''_'' then scan_exponent e cs
      else
        (case digit_of c of
           Some d \<Rightarrow> scan_exponent (if e < 10000 then e * 10 + d else e) cs
         | None \<Rightarrow> (e, c # cs)))"

text \<open>
  The optional exponent: \<^verbatim>\<open>e\<close> or \<^verbatim>\<open>E\<close> after a decimal mantissa, \<^verbatim>\<open>p\<close> or \<^verbatim>\<open>P\<close> (which is
  required) after a hexadecimal one. \<open>None\<close> is a syntax error.
\<close>

definition read_exponent :: "bool \<Rightarrow> string \<Rightarrow> (int \<times> string) option" where
  "read_exponent hex s =
     (if s \<noteq> [] \<and> lowerByte (hd s) = (if hex then CHR ''p'' else CHR ''e'') then
        (let s1 = tl s in
         if s1 = [] then None
         else
           (let esign = (if hd s1 = CHR ''-'' then - 1 else 1 :: int);
                s2 = (if hd s1 = CHR ''+'' \<or> hd s1 = CHR ''-'' then tl s1 else s1)
            in if s2 = [] \<or> digit_of (hd s2) = None then None
               else Some (esign * int (fst (scan_exponent 0 s2)), snd (scan_exponent 0 s2))))
      else if hex then None
      else Some (0, s))"

datatype saw = SawStart | SawDigit | SawUnderscore | SawOther

fun underscore_scan :: "bool \<Rightarrow> saw \<Rightarrow> string \<Rightarrow> bool" where
  "underscore_scan hex sw [] = (sw \<noteq> SawUnderscore)"
| "underscore_scan hex sw (c # cs) =
     (if digit_of c \<noteq> None \<or> (hex \<and> hexletter_of c \<noteq> None) then underscore_scan hex SawDigit cs
      else if c = CHR ''_'' then
        (if sw \<noteq> SawDigit then False else underscore_scan hex SawUnderscore cs)
      else if sw = SawUnderscore then False
      else underscore_scan hex SawOther cs)"

definition underscoreOK :: "string \<Rightarrow> bool" where
  "underscoreOK s0 =
     (let s = (if s0 \<noteq> [] \<and> (hd s0 = CHR ''-'' \<or> hd s0 = CHR ''+'') then tl s0 else s0)
      in if length s \<ge> 2 \<and> s ! 0 = CHR ''0'' \<and> lowerByte (s ! 1) \<in> set ''box''
         then underscore_scan (lowerByte (s ! 1) = CHR ''x'') SawDigit (drop 2 s)
         else underscore_scan False SawStart s)"

text \<open>
  \<^verbatim>\<open>readFloat\<close>: the number spelled by the longest prefix of \<open>s\<close> that is a mantissa with an
  optional exponent, and the text left after it; \<open>None\<close> when there is no such prefix.
\<close>

definition scale :: "rat \<Rightarrow> int \<Rightarrow> rat" where
  "scale b e = (if e \<ge> 0 then b ^ nat e else 1 / b ^ nat (- e))"

definition readFloat :: "string \<Rightarrow> (rat \<times> string) option" where
  "readFloat s =
     (if s = [] then None
      else
        (let neg = (hd s = CHR ''-'');
             s1 = (if hd s = CHR ''+'' \<or> hd s = CHR ''-'' then tl s else s);
             hex = (length s1 > 2 \<and> s1 ! 0 = CHR ''0'' \<and> lowerByte (s1 ! 1) = CHR ''x'');
             r = scan_mantissa hex False False 0 0 (if hex then drop 2 s1 else s1);
             m = fst r; fd = fst (snd r); sawdigits = fst (snd (snd r)); s3 = snd (snd (snd r))
         in if \<not> sawdigits then None
            else
              (case read_exponent hex s3 of
                 None \<Rightarrow> None
               | Some (e, s4) \<Rightarrow>
                   (let consumed = take (length s - length s4) s in
                    if CHR ''_'' \<in> set consumed \<and> \<not> underscoreOK consumed then None
                    else
                      Some ((if neg then - 1 else 1) * of_nat m
                              / (if hex then 16 else 10) ^ fd
                              * scale (if hex then 2 else 10) e,
                            s4)))))"

text \<open>
  The midpoint between the largest \<^verbatim>\<open>float64\<close> and \<open>2 ^ 1024\<close>: from there on a value rounds
  to infinity, and \<^verbatim>\<open>ParseFloat\<close> returns \<^verbatim>\<open>ErrRange\<close>.
\<close>

definition float64_overflows :: "rat \<Rightarrow> bool" where
  "float64_overflows q = (\<bar>q\<bar> \<ge> 2 ^ 1024 - 2 ^ 970)"

definition ParseFloat :: "string \<Rightarrow> error + float64" where
  "ParseFloat s =
     (case special s of
        Some (v, n) \<Rightarrow> if n = length s then Inr v else Inl ErrSyntax
      | None \<Rightarrow>
          (case readFloat s of
             None \<Rightarrow> Inl ErrSyntax
           | Some (q, rest) \<Rightarrow>
               if rest \<noteq> [] then Inl ErrSyntax
               else if float64_overflows q then Inl ErrRange
               else Inr (Num q)))"

section \<open>Value normalizers\<close>

definition parseSpeed :: "string \<Rightarrow> error + float64" where
  "parseSpeed speedStr =
     ParseFloat (TrimSpace (TrimSuffix (TrimSuffix speedStr '' GT/s PCIe'') '' GT/s''))"

definition parseWidth :: "string \<Rightarrow> error + float64" where
  "parseWidth widthStr = ParseFloat (TrimSpace (TrimPrefix widthStr ''x''))"

definition parsePowerState :: "string \<Rightarrow> error + float64" where
  "parsePowerState powerStateStr =
     (let s = TrimSpace powerStateStr in
      case ParseFloat s of
        Inr powerState \<Rightarrow> Inr powerState
      | Inl err \<Rightarrow>
          (let l = ToLower s in
           if l = ''d0'' \<or> l = ''0'' then Inr (Num 0)
           else if l = ''d1'' \<or> l = ''1'' then Inr (Num 1)
           else if l = ''d2'' \<or> l = ''2'' then Inr (Num 2)
           else if l = ''d3hot'' \<or> l = ''3'' then Inr (Num 3)
           else if l = ''d3cold'' \<or> l = ''4'' then Inr (Num 4)
           else Inl (UnknownPowerState s)))"

section \<open>The identifier database: tables and loader\<close>

text \<open>
  The five package-level maps of \<^verbatim>\<open>pcie_linux.go\<close>. A Go map is a partial function; a key
  that is absent reads as \<open>None\<close>. The two nested tables hold an inner map per key, created
  by the loader the first time the key is written.
\<close>

record pci_tables =
  pciVendors :: "string \<rightharpoonup> string"
  pciDevices :: "string \<rightharpoonup> (string \<rightharpoonup> string)"
  pciSubsystems :: "string \<rightharpoonup> (string \<rightharpoonup> string)"
  pciClasses :: "string \<rightharpoonup> string"
  pciSubclasses :: "string \<rightharpoonup> string"

definition empty_tables :: pci_tables where
  "empty_tables =
     \<lparr>pciVendors = Map.empty, pciDevices = Map.empty, pciSubsystems = Map.empty,
      pciClasses = Map.empty, pciSubclasses = Map.empty\<rparr>"

text \<open>The four local variables of \<^verbatim>\<open>loadPCIIds\<close> that carry the context from line to line.\<close>

record loader_ctx =
  currentVendor :: string
  currentDevice :: string
  currentBaseClass :: string
  currentSubclass :: string

definition initial_ctx :: loader_ctx where
  "initial_ctx =
     \<lparr>currentVendor = [], currentDevice = [], currentBaseClass = [], currentSubclass = []\<rparr>"

text \<open>
  \<^verbatim>\<open>m[k][k2] = v\<close> after \<^verbatim>\<open>if m[k] == nil { m[k] = make(map[string]string) }\<close>.
\<close>

definition put_nested ::
  "(string \<rightharpoonup> (string \<rightharpoonup> string)) \<Rightarrow> string \<Rightarrow> string \<Rightarrow> string \<Rightarrow>
   (string \<rightharpoonup> (string \<rightharpoonup> string))" where
  "put_nested m k k2 v =
     m(k \<mapsto> (case m k of None \<Rightarrow> Map.empty | Some inner \<Rightarrow> inner)(k2 \<mapsto> v))"

text \<open>
  One iteration of the scanner loop of \<^verbatim>\<open>loadPCIIds\<close> (lines 288 to 367), on the line the
  scanner returned. The tests are in the order of the source, and each \<^verbatim>\<open>continue\<close> is
  the end of its branch.
\<close>

definition loadPCIIds_line :: "pci_tables \<times> loader_ctx \<Rightarrow> string \<Rightarrow> pci_tables \<times> loader_ctx" where
  "loadPCIIds_line st line =
     (let t = fst st; c = snd st in
      if line = [] \<or> HasPrefix line ''#'' then (t, c)
      else if HasPrefix line ''C'' then
        (let parts = SplitN2 line ''  '' in
         if length parts \<ge> 2 then
           (let classID = TrimSpace (drop 1 (parts ! 0));
                className = TrimSpace (parts ! 1)
            in (t\<lparr>pciClasses := (pciClasses t)(classID \<mapsto> className)\<rparr>,
                c\<lparr>currentBaseClass := classID, currentSubclass := []\<rparr>))
         else (t, c))
      else if HasPrefix line [TAB] \<and> \<not> HasPrefix line [TAB, TAB] then
        (let parts = SplitN2 (TrimPrefix line [TAB]) ''  '' in
         if length parts \<ge> 2 \<and> currentBaseClass c \<noteq> [] then
           (let subclassID = TrimSpace (parts ! 0);
                subclassName = TrimSpace (parts ! 1);
                fullClassID = currentBaseClass c @ subclassID
            in (t\<lparr>pciSubclasses := (pciSubclasses t)(fullClassID \<mapsto> subclassName)\<rparr>,
                c\<lparr>currentSubclass := fullClassID\<rparr>))
         else (t, c))
      else if HasPrefix line [TAB, TAB] \<and> \<not> HasPrefix line [TAB, TAB, TAB] then (t, c)
      else if \<not> HasPrefix line [TAB] \<and> \<not> HasPrefix line ''C'' then
        (let parts = SplitN2 line ''  '' in
         if length parts \<ge> 2 then
           (let vendor = TrimSpace (parts ! 0)
            in (t\<lparr>pciVendors := (pciVendors t)(vendor \<mapsto> TrimSpace (parts ! 1))\<rparr>,
                c\<lparr>currentVendor := vendor, currentDevice := []\<rparr>))
         else (t, c))
      else if HasPrefix line [TAB] \<and> \<not> HasPrefix line [TAB, TAB] then
        (let parts = SplitN2 (TrimPrefix line [TAB]) ''  '' in
         if length parts \<ge> 2 \<and> currentVendor c \<noteq> [] then
           (let device = TrimSpace (parts ! 0)
            in (t\<lparr>pciDevices :=
                    put_nested (pciDevices t) (currentVendor c) device (TrimSpace (parts ! 1))\<rparr>,
                c\<lparr>currentDevice := device\<rparr>))
         else (t, c))
      else if HasPrefix line [TAB, TAB] then
        (let parts = SplitN2 (TrimPrefix line [TAB, TAB]) ''  '' in
         if length parts \<ge> 2 \<and> currentVendor c \<noteq> [] \<and> currentDevice c \<noteq> [] then
           (let subsysID = TrimSpace (parts ! 0);
                subsysName = TrimSpace (parts ! 1);
                key = currentVendor c @ '':'' @ currentDevice c
            in (t\<lparr>pciSubsystems := put_nested (pciSubsystems t) key subsysID subsysName\<rparr>, c))
         else (t, c))
      else (t, c))"

text \<open>
  The loop over the lines of the opened file, from given tables: the context variables
  start empty at every call.
\<close>

definition loadPCIIds_lines :: "string list \<Rightarrow> pci_tables \<Rightarrow> pci_tables" where
  "loadPCIIds_lines lines t = fst (foldl loadPCIIds_line (t, initial_ctx) lines)"

text \<open>
  \<^verbatim>\<open>loadPCIIds\<close>: the candidate paths are opened in order and the first that opens is
  scanned. Each element of \<open>files\<close> is the outcome of \<^verbatim>\<open>os.Open\<close> on one path: \<open>None\<close> for
  an error, otherwise the lines the scanner yields. When no path opens the tables are
  left as they are.
\<close>

fun open_first :: "string list option list \<Rightarrow> string list option" where
  "open_first [] = None"
| "open_first (None # fs) = open_first fs"
| "open_first (Some f # fs) = Some f"

definition loadPCIIds :: "string list option list \<Rightarrow> pci_tables \<Rightarrow> pci_tables" where
  "loadPCIIds files t =
     (case open_first files of None \<Rightarrow> t | Some lines \<Rightarrow> loadPCIIds_lines lines t)"

section \<open>Name resolution\<close>

definition getPCIVendorName :: "pci_tables \<Rightarrow> string \<Rightarrow> string" where
  "getPCIVendorName t vendorID =
     (let vendorID = ToLower (TrimPrefix vendorID ''0x'') in
      case pciVendors t vendorID of Some name \<Rightarrow> name | None \<Rightarrow> vendorID)"

definition getPCIDeviceName :: "pci_tables \<Rightarrow> string \<Rightarrow> string \<Rightarrow> string" where
  "getPCIDeviceName t vendorID deviceID =
     (let vendorID = ToLower (TrimPrefix vendorID ''0x'');
          deviceID = ToLower (TrimPrefix deviceID ''0x'')
      in case pciDevices t vendorID of
           Some devices \<Rightarrow> (case devices deviceID of Some name \<Rightarrow> name | None \<Rightarrow> deviceID)
         | None \<Rightarrow> deviceID)"

definition getPCISubsystemName ::
  "pci_tables \<Rightarrow> string \<Rightarrow> string \<Rightarrow> string \<Rightarrow> string \<Rightarrow> string" where
  "getPCISubsystemName t vendorID deviceID subsysVendorID subsysDeviceID =
     (let vendorID = TrimPrefix vendorID ''0x'';
          deviceID = TrimPrefix deviceID ''0x'';
          subsysVendorID = TrimPrefix subsysVendorID ''0x'';
          subsysDeviceID = TrimPrefix subsysDeviceID ''0x'';
          key = vendorID @ '':'' @ deviceID;
          subsysKey = subsysVendorID @ '':'' @ subsysDeviceID
      in case pciSubsystems t key of
           Some subsystems \<Rightarrow>
             (case subsystems subsysKey of Some name \<Rightarrow> name | None \<Rightarrow> subsysDeviceID)
         | None \<Rightarrow> subsysDeviceID)"

definition getPCIClassName :: "pci_tables \<Rightarrow> string \<Rightarrow> string" where
  "getPCIClassName t classID =
     (let classID = ToLower (TrimPrefix classID ''0x'');
          sub = (if length classID \<ge> 4 then pciSubclasses t classID else None)
      in case sub of
           Some className \<Rightarrow> className
         | None \<Rightarrow>
             (case (if length classID \<ge> 2 then pciClasses t (take 2 classID) else None) of
                Some className \<Rightarrow> className
              | None \<Rightarrow> ''Unknown class ('' @ classID @ '')''))"

section \<open>The PCIe device collector\<close>

text \<open>
  The descriptors of \<^verbatim>\<open>pcieCollector\<close>, and a constant metric as
  \<^verbatim>\<open>prometheus.MustNewConstMetric\<close> builds it: descriptor, gauge value, label values. The
  channel and the logger are the two components of the sink, each in the order written.
\<close>

datatype pcie_desc =
  info | currentSpeed | currentWidth | maxSpeed | maxWidth | powerState | d3coldAllowed

record 'd metric =
  desc :: 'd
  gauge :: float64
  labelValues :: "string list"

record log_entry =
  msg :: string
  args :: "(string \<times> string) list"
  err :: error

record 'd sink =
  sent :: "'d metric list"
  logged :: "log_entry list"

text \<open>
  \<^verbatim>\<open>ch <- prometheus.MustNewConstMetric(desc, prometheus.GaugeValue, value, labels...)\<close>. The
  library checks the label values before it builds the metric: their number must be the
  number of label names of the descriptor, which it is at every call of the collectors, and
  each must be valid UTF-8. \<^verbatim>\<open>MustNewConstMetric\<close> panics when the check fails: the result
  is \<open>None\<close>, and nothing is sent.
\<close>

definition send :: "'d metric \<Rightarrow> 'd sink \<Rightarrow> 'd sink option" where
  "send m s =
     (if list_all ValidString (labelValues m) then Some (s\<lparr>sent := sent s @ [m]\<rparr>) else None)"

definition debug :: "string \<Rightarrow> (string \<times> string) list \<Rightarrow> error \<Rightarrow> 'd sink \<Rightarrow> 'd sink" where
  "debug text kvs e s = s\<lparr>logged := logged s @ [\<lparr>msg = text, args = kvs, err = e\<rparr>]\<rparr>"

text \<open>
  The directory of one device: the content of each attribute file by name, \<open>None\<close> when
  \<^verbatim>\<open>os.ReadFile\<close> fails on it.
\<close>

type_synonym device_dir = "string \<rightharpoonup> string"

definition readFileContent :: "device_dir \<Rightarrow> string \<Rightarrow> string" where
  "readFileContent dir name =
     (case dir name of None \<Rightarrow> ''unknown'' | Some content \<Rightarrow> TrimSpace content)"

text \<open>
  \<^verbatim>\<open>collectDeviceMetrics\<close>, statement by statement. Where it returns, it returns \<^verbatim>\<open>nil\<close>: the
  result is the sink, or \<open>None\<close> when building a metric panics. A panic ends the function at
  that statement (\<open>Option.bind\<close>).
\<close>

definition collectDeviceMetrics ::
  "pci_tables \<Rightarrow> device_dir \<Rightarrow> string \<Rightarrow> pcie_desc sink \<Rightarrow> pcie_desc sink option" where
  "collectDeviceMetrics t dir deviceID s0 =
     (let vendorID = readFileContent dir ''vendor'';
          devID = readFileContent dir ''device'';
          subsysVendorID = readFileContent dir ''subsystem_vendor'';
          subsysDeviceID = readFileContent dir ''subsystem_device'';
          vendor = getPCIVendorName t vendorID;
          device = getPCIDeviceName t vendorID devID;
          subsysVendor = getPCIVendorName t subsysVendorID;
          subsysDevice = getPCISubsystemName t vendorID devID subsysVendorID subsysDeviceID;
          classIDStr = readFileContent dir ''class'';
          classString = getPCIClassName t classIDStr;
          infoLabels =
            [deviceID, vendorID, vendor, devID, device, subsysVendorID, subsysVendor,
             subsysDeviceID, subsysDevice, classIDStr, classString,
             readFileContent dir ''revision'']
      in Option.bind (send \<lparr>desc = info, gauge = Num 1, labelValues = infoLabels\<rparr> s0) (\<lambda>s1.
         Option.bind
           (let currentSpeedStr = readFileContent dir ''current_link_speed'' in
            if currentSpeedStr \<noteq> ''unknown'' then
              (case parseSpeed currentSpeedStr of
                 Inr v \<Rightarrow> send \<lparr>desc = currentSpeed, gauge = v, labelValues = [deviceID]\<rparr> s1
               | Inl e \<Rightarrow>
                   Some (debug ''failed to parse current speed''
                     [(''device'', deviceID), (''speed'', currentSpeedStr)] e s1))
            else Some s1) (\<lambda>s2.
         Option.bind
           (let currentWidthStr = readFileContent dir ''current_link_width'' in
            if currentWidthStr \<noteq> ''unknown'' then
              (case parseWidth currentWidthStr of
                 Inr v \<Rightarrow> send \<lparr>desc = currentWidth, gauge = v, labelValues = [deviceID]\<rparr> s2
               | Inl e \<Rightarrow>
                   Some (debug ''failed to parse current width''
                     [(''device'', deviceID), (''width'', currentWidthStr)] e s2))
            else Some s2) (\<lambda>s3.
         Option.bind
           (let maxSpeedStr = readFileContent dir ''max_link_speed'' in
            if maxSpeedStr \<noteq> ''unknown'' then
              (case parseSpeed maxSpeedStr of
                 Inr v \<Rightarrow> send \<lparr>desc = maxSpeed, gauge = v, labelValues = [deviceID]\<rparr> s3
               | Inl e \<Rightarrow>
                   Some (debug ''failed to parse max speed''
                     [(''device'', deviceID), (''speed'', maxSpeedStr)] e s3))
            else Some s3) (\<lambda>s4.
         Option.bind
           (let maxWidthStr = readFileContent dir ''max_link_width'' in
            if maxWidthStr \<noteq> ''unknown'' then
              (case parseWidth maxWidthStr of
                 Inr v \<Rightarrow> send \<lparr>desc = maxWidth, gauge = v, labelValues = [deviceID]\<rparr> s4
               | Inl e \<Rightarrow>
                   Some (debug ''failed to parse max width''
                     [(''device'', deviceID), (''width'', maxWidthStr)] e s4))
            else Some s4) (\<lambda>s5.
         Option.bind
           (let powerStateStr = readFileContent dir ''power_state'' in
            if powerStateStr \<noteq> ''unknown'' then
              (case parsePowerState powerStateStr of
                 Inr v \<Rightarrow> send \<lparr>desc = powerState, gauge = v, labelValues = [deviceID]\<rparr> s5
               | Inl e \<Rightarrow>
                   Some (debug ''failed to parse power state''
                     [(''device'', deviceID), (''value'', powerStateStr)] e s5))
            else Some s5) (\<lambda>s6.
         let d3coldAllowedStr = readFileContent dir ''d3cold_allowed'' in
         if d3coldAllowedStr \<noteq> ''unknown'' then
           (case ParseFloat d3coldAllowedStr of
              Inr v \<Rightarrow> send \<lparr>desc = d3coldAllowed, gauge = v, labelValues = [deviceID]\<rparr> s6
            | Inl e \<Rightarrow>
                Some (debug ''failed to parse d3cold_allowed''
                  [(''device'', deviceID), (''value'', d3coldAllowedStr)] e s6))
         else Some s6)))))))"

text \<open>
  \<^verbatim>\<open>Update\<close>: the devices the glob returned, each with its identifier (the base name of its
  path) and its directory, collected in order. A panic in one device ends the poll.
\<close>

fun Update ::
  "pci_tables \<Rightarrow> (string \<times> device_dir) list \<Rightarrow> pcie_desc sink \<Rightarrow> pcie_desc sink option" where
  "Update t [] s = Some s"
| "Update t ((deviceID, dir) # devices) s =
     Option.bind (collectDeviceMetrics t dir deviceID s) (Update t devices)"

section \<open>The systemd service collector, in its two variants\<close>




text \<open>
  The state strings come from the bus and the claims about the parsers speak of every
  string, so in this collector \<^verbatim>\<open>strings.ToLower\<close> is not fixed to its ASCII part: the
  parsers and collectors take the function as their first argument \<open>lower\<close>, and what is
  proved of them holds whatever that function is, Go's among them.
\<close>

subsection \<open>The variant of \<^verbatim>\<open>src/unnamed/part_000\<close>: an unknown state is an error\<close>





subsection \<open>The variant of \<^verbatim>\<open>src/collector/systemdservices_linux.go\<close>: an unknown state is 0\<close>





section \<open>Sample inputs and auxiliary operations for the proofs\<close>

text \<open>
  Three lines in the layout of the vendor section of \<^verbatim>\<open>pci.ids\<close>: a vendor, one of its
  devices, one subsystem of the device.
\<close>

definition intel_db :: "string list" where
  "intel_db =
     [''8086  Intel Corporation'',
      TAB # ''1234  Some Device'',
      TAB # TAB # ''8086 0001  Some Subsystem'']"

text \<open>Three lines in the layout of its class section: a class, a subclass, an interface.\<close>

definition bridge_db :: "string list" where
  "bridge_db = [''C 06  Bridge'', TAB # ''04  PCI bridge'', TAB # TAB # ''00  Normal decode'']"

text \<open>The context the loader would be in after a vendor line and a device line.\<close>

definition in_device_ctx :: loader_ctx where
  "in_device_ctx =
     \<lparr>currentVendor = ''8086'', currentDevice = ''1234'', currentBaseClass = [],
      currentSubclass = []\<rparr>"

text \<open>
  Overriding one family of tables by another: on a flat table the entries of the second
  replace those of the first, on a nested table the inner maps are overridden key by key.
  A run of the loader overrides the tables it starts from by what the same run writes into
  empty tables.
\<close>

definition over_nested ::
  "(string \<rightharpoonup> (string \<rightharpoonup> string)) \<Rightarrow> (string \<rightharpoonup> (string \<rightharpoonup> string)) \<Rightarrow>
   (string \<rightharpoonup> (string \<rightharpoonup> string))" where
  "over_nested a b =
     (\<lambda>k. case b k of
            None \<Rightarrow> a k
          | Some inner \<Rightarrow> Some ((case a k of None \<Rightarrow> Map.empty | Some old \<Rightarrow> old) ++ inner))"

definition over_tables :: "pci_tables \<Rightarrow> pci_tables \<Rightarrow> pci_tables" where
  "over_tables a b =
     \<lparr>pciVendors = pciVendors a ++ pciVendors b,
      pciDevices = over_nested (pciDevices a) (pciDevices b),
      pciSubsystems = over_nested (pciSubsystems a) (pciSubsystems b),
      pciClasses = pciClasses a ++ pciClasses b,
      pciSubclasses = pciSubclasses a ++ pciSubclasses b\<rparr>"

text \<open>
  The names of the power states in the \<^verbatim>\<open>switch\<close> of \<^verbatim>\<open>parsePowerState\<close>, with their numbers.
\<close>

definition power_state_names :: "(string \<times> rat) list" where
  "power_state_names = [(''d0'', 0), (''d1'', 1), (''d2'', 2), (''d3hot'', 3), (''d3cold'', 4)]"

text \<open>A sink that has received nothing yet.\<close>

definition empty_sink :: "'d sink" where
  "empty_sink = \<lparr>sent = [], logged = []\<rparr>"

text \<open>
  What one numeric attribute contributes to the channel: nothing when the raw text is the
  sentinel or the normalizer failed on it, otherwise the one metric with the value.
\<close>

definition numeric_metric ::
  "pcie_desc \<Rightarrow> string \<Rightarrow> error + float64 \<Rightarrow> string \<Rightarrow> pcie_desc metric list" where
  "numeric_metric d raw result deviceID =
     (if raw = ''unknown'' then []
      else case result of
             Inr v \<Rightarrow> [\<lparr>desc = d, gauge = v, labelValues = [deviceID]\<rparr>]
           | Inl e \<Rightarrow> [])"

text \<open>
  The twelve label values of the info metric in the order of the source, from the text
  \<open>r a\<close> read for each attribute \<open>a\<close>: the device id, then each raw text followed by the name
  resolved from it, then the revision.
\<close>

definition info_labels :: "pci_tables \<Rightarrow> (string \<Rightarrow> string) \<Rightarrow> string \<Rightarrow> string list" where
  "info_labels t r deviceID =
     [deviceID,
      r ''vendor'',
      getPCIVendorName t (r ''vendor''),
      r ''device'',
      getPCIDeviceName t (r ''vendor'') (r ''device''),
      r ''subsystem_vendor'',
      getPCIVendorName t (r ''subsystem_vendor''),
      r ''subsystem_device'',
      getPCISubsystemName t (r ''vendor'') (r ''device'') (r ''subsystem_vendor'')
        (r ''subsystem_device''),
      r ''class'',
      getPCIClassName t (r ''class''),
      r ''revision'']"

text \<open>
  The metrics of one device, from the texts read: the info metric, then the metrics of the
  six numeric attributes in the order of the source.
\<close>

definition emitted :: "pci_tables \<Rightarrow> (string \<Rightarrow> string) \<Rightarrow> string \<Rightarrow> pcie_desc metric list" where
  "emitted t r deviceID =
     \<lparr>desc = info, gauge = Num 1, labelValues = info_labels t r deviceID\<rparr> #
       numeric_metric currentSpeed (r ''current_link_speed'')
         (parseSpeed (r ''current_link_speed'')) deviceID @
       numeric_metric currentWidth (r ''current_link_width'')
         (parseWidth (r ''current_link_width'')) deviceID @
       numeric_metric maxSpeed (r ''max_link_speed'')
         (parseSpeed (r ''max_link_speed'')) deviceID @
       numeric_metric maxWidth (r ''max_link_width'')
         (parseWidth (r ''max_link_width'')) deviceID @
       numeric_metric powerState (r ''power_state'')
         (parsePowerState (r ''power_state'')) deviceID @
       numeric_metric d3coldAllowed (r ''d3cold_allowed'')
         (ParseFloat (r ''d3cold_allowed'')) deviceID"

text \<open>
  The texts read from a device directory in which the attribute file \<open>name\<close> yields the
  sentinel, whatever the other files hold.
\<close>

definition with_sentinel :: "device_dir \<Rightarrow> string \<Rightarrow> string \<Rightarrow> string" where
  "with_sentinel dir name = (readFileContent dir)(name := ''unknown'')"

text \<open>The six numeric attribute files, each with the descriptor of its metric.\<close>

definition numeric_attributes :: "(string \<times> pcie_desc) list" where
  "numeric_attributes =
     [(''current_link_speed'', currentSpeed), (''current_link_width'', currentWidth),
      (''max_link_speed'', maxSpeed), (''max_link_width'', maxWidth),
      (''power_state'', powerState), (''d3cold_allowed'', d3coldAllowed)]"

text \<open>
  A device directory: some attributes are present, one holds text that is no number, one
  holds the word \<^verbatim>\<open>unknown\<close>, and the files not listed are missing.
\<close>

definition sample_dir :: device_dir where
  "sample_dir =
     [''vendor'' \<mapsto> ''0x8086'' @ [CHR 0x0A],
      ''device'' \<mapsto> ''0x1234'' @ [CHR 0x0A],
      ''class'' \<mapsto> ''0x060400'' @ [CHR 0x0A],
      ''current_link_speed'' \<mapsto> ''8.0 GT/s PCIe'' @ [CHR 0x0A],
      ''current_link_width'' \<mapsto> ''garbage'' @ [CHR 0x0A],
      ''max_link_width'' \<mapsto> ''x16'' @ [CHR 0x0A],
      ''power_state'' \<mapsto> ''D0'' @ [CHR 0x0A],
      ''d3cold_allowed'' \<mapsto> ''unknown'' @ [CHR 0x0A]]"

text \<open>The same directory with a vendor file that holds the single byte \<^verbatim>\<open>0xFF\<close>.\<close>

definition bad_dir :: device_dir where
  "bad_dir = sample_dir(''vendor'' \<mapsto> [CHR 0xFF])"






text \<open>
  The normal form of an id in the words of the specification: the \<^verbatim>\<open>0x\<close> prefix stripped,
  then lowercase.
\<close>

definition normalize_id :: "string \<Rightarrow> string" where
  "normalize_id s = ToLower (TrimPrefix s ''0x'')"

text \<open>A vendor line whose id is written with a prefix and in upper case.\<close>

definition upper_db :: "string list" where
  "upper_db = [''0xABCD  Example Vendor'']"

text \<open>The context the loader is in after the class line of \<open>bridge_db\<close>.\<close>

definition in_class_ctx :: loader_ctx where
  "in_class_ctx =
     \<lparr>currentVendor = [], currentDevice = [], currentBaseClass = ''06'', currentSubclass = []\<rparr>"

section \<open>Evaluation on concrete inputs\<close>

lemmas go_strings_defs =
  HasPrefix_def HasSuffix_def TrimPrefix_def TrimSuffix_def ToLower_def lowerByte_def
  TrimSpace_def TrimLeftSpace_def TrimRightSpace_def space_runes_def rune_len_def SplitN2_def

lemmas loader_defs =
  loadPCIIds_lines_def loadPCIIds_line_def initial_ctx_def empty_tables_def put_nested_def Let_def

section \<open>The loader: which tables a line can change\<close>

text \<open>
  The test of the subclass branch (line 308 of \<^verbatim>\<open>pcie_linux.go\<close>) is the test of the device
  branch (line 340), and it comes first and ends in \<^verbatim>\<open>continue\<close>: no line reaches the device
  branch. So no line changes the device table or sets \<^verbatim>\<open>currentDevice\<close>, and the subsystem
  branch, which needs \<^verbatim>\<open>currentDevice\<close> set, never writes either.
\<close>

lemma loadPCIIds_line_devices:
  "pciDevices (fst (loadPCIIds_line (t, c) l)) = pciDevices t"
  by (simp add: loadPCIIds_line_def Let_def)

lemma loadPCIIds_line_currentDevice:
  "currentDevice c = [] \<Longrightarrow> currentDevice (snd (loadPCIIds_line (t, c) l)) = []"
  by (simp add: loadPCIIds_line_def Let_def)

lemma loadPCIIds_line_subsystems:
  "currentDevice c = [] \<Longrightarrow> pciSubsystems (fst (loadPCIIds_line (t, c) l)) = pciSubsystems t"
  by (simp add: loadPCIIds_line_def Let_def)

lemma foldl_loadPCIIds_line_devices:
  "pciDevices (fst (foldl loadPCIIds_line (t, c) ls)) = pciDevices t"
proof (induction ls arbitrary: t c)
  case Nil
  show ?case by simp
next
  case (Cons l ls)
  obtain t' c' where step: "loadPCIIds_line (t, c) l = (t', c')"
    by (cases "loadPCIIds_line (t, c) l")
  have "pciDevices t' = pciDevices t"
    using loadPCIIds_line_devices [of t c l] step by simp
  then show ?case
    using Cons.IH [of t' c'] step by simp
qed

lemma foldl_loadPCIIds_line_subsystems:
  "currentDevice c = [] \<Longrightarrow>
   pciSubsystems (fst (foldl loadPCIIds_line (t, c) ls)) = pciSubsystems t"
proof (induction ls arbitrary: t c)
  case Nil
  show ?case by simp
next
  case (Cons l ls)
  obtain t' c' where step: "loadPCIIds_line (t, c) l = (t', c')"
    by (cases "loadPCIIds_line (t, c) l")
  have "pciSubsystems t' = pciSubsystems t" and "currentDevice c' = []"
    using loadPCIIds_line_subsystems [of c t l] loadPCIIds_line_currentDevice [of c t l]
      step Cons.prems by simp_all
  then show ?case
    using Cons.IH [of c' t'] step by simp
qed

lemma loadPCIIds_never_writes_devices:
  "pciDevices (loadPCIIds files t) = pciDevices t"
  "pciSubsystems (loadPCIIds files t) = pciSubsystems t"
  by (simp_all add: loadPCIIds_def loadPCIIds_lines_def foldl_loadPCIIds_line_devices
      foldl_loadPCIIds_line_subsystems initial_ctx_def split: option.splits)

text \<open>
  Claim C1 says that a line with one leading tab, parsed after a vendor line, puts its id
  and name into the device table under that vendor. On the vendor line
  \<^verbatim>\<open>8086  Intel Corporation\<close> followed by the device line \<^verbatim>\<open>\t1234  Some Device\<close>, the loader
  records the vendor and leaves the device table without an entry for \<^verbatim>\<open>8086\<close>: device-name
  resolution falls back to the id.
\<close>

theorem device_line_after_vendor_is_dropped:
  "pciVendors (loadPCIIds_lines (take 2 intel_db) empty_tables) ''8086'' = Some ''Intel Corporation''
   \<and> pciDevices (loadPCIIds_lines (take 2 intel_db) empty_tables) ''8086'' = None
   \<and> getPCIDeviceName (loadPCIIds_lines (take 2 intel_db) empty_tables) ''0x8086'' ''0x1234''
       = ''1234''"
  by (simp add: intel_db_def loader_defs go_strings_defs getPCIDeviceName_def)

text \<open>
  Claim C2 says that a line with two leading tabs, parsed while a device is the current
  context, puts its name into the subsystem table under the key \<^verbatim>\<open>vendor:device\<close>, and that
  such a line is ignored in a subclass context. After the vendor, device and subsystem lines
  of \<open>intel_db\<close> the subsystem table has no entry for \<^verbatim>\<open>8086:1234\<close>; and from a context that
  has both \<^verbatim>\<open>currentVendor\<close> and \<^verbatim>\<open>currentDevice\<close> set, the subsystem line changes nothing:
  a line with exactly two leading tabs is skipped in every context.
\<close>

theorem subsystem_line_after_device_is_dropped:
  "pciSubsystems (loadPCIIds_lines intel_db empty_tables) ''8086:1234'' = None
   \<and> loadPCIIds_line (empty_tables, in_device_ctx) (intel_db ! 2) = (empty_tables, in_device_ctx)
   \<and> getPCISubsystemName (loadPCIIds_lines intel_db empty_tables)
         ''0x8086'' ''0x1234'' ''0x8086'' ''0x0001'' = ''0001''"
  by (simp add: intel_db_def in_device_ctx_def loader_defs go_strings_defs
      getPCISubsystemName_def)

section \<open>Class-name resolution\<close>

text \<open>
  Claim C6 says that class-name resolution looks up the four-digit form of the class id in
  the subclass table first, so that a six-digit class id whose first four digits are a key
  of that table resolves to the subclass name. With the class \<^verbatim>\<open>06\<close> and its subclass
  \<^verbatim>\<open>04\<close> loaded, the subclass table maps \<^verbatim>\<open>0604\<close> to \<^verbatim>\<open>PCI bridge\<close>, and the six-digit id
  \<^verbatim>\<open>0x060400\<close> resolves to the class name \<^verbatim>\<open>Bridge\<close>: the whole id is looked up, not its first
  four digits. Only an id of exactly four digits reaches the subclass name.
\<close>

theorem class_name_of_six_digit_id_misses_subclass:
  "pciSubclasses (loadPCIIds_lines bridge_db empty_tables) ''0604'' = Some ''PCI bridge''
   \<and> pciClasses (loadPCIIds_lines bridge_db empty_tables) ''06'' = Some ''Bridge''
   \<and> getPCIClassName (loadPCIIds_lines bridge_db empty_tables) ''0x060400'' = ''Bridge''
   \<and> getPCIClassName (loadPCIIds_lines bridge_db empty_tables) ''0x0604'' = ''PCI bridge''"
  by (simp add: bridge_db_def loader_defs go_strings_defs getPCIClassName_def)

section \<open>Loading twice\<close>

lemma map_add_same: "(m :: 'a \<rightharpoonup> 'b) ++ m = m"
  by (rule ext) (simp add: map_add_def split: option.splits)

lemma over_nested_assoc: "over_nested (over_nested a b) c = over_nested a (over_nested b c)"
  by (rule ext) (simp add: over_nested_def split: option.splits)

lemma over_nested_idem: "over_nested a a = a"
  by (rule ext) (simp add: over_nested_def map_add_same split: option.splits)

lemma over_nested_empty: "over_nested a Map.empty = a"
  by (rule ext) (simp add: over_nested_def)

lemma put_nested_over: "put_nested m k k2 v = over_nested m (put_nested Map.empty k k2 v)"
  by (rule ext) (simp add: put_nested_def over_nested_def split: option.splits)

lemma over_tables_assoc: "over_tables (over_tables a b) c = over_tables a (over_tables b c)"
  by (simp add: over_tables_def over_nested_assoc)

lemma over_tables_idem: "over_tables a a = a"
  by (simp add: over_tables_def over_nested_idem map_add_same)

lemma over_tables_empty: "over_tables a empty_tables = a"
  by (simp add: over_tables_def empty_tables_def over_nested_empty)

text \<open>
  One line writes the same entries whatever the tables hold, and moves the context the same
  way.
\<close>

lemma loadPCIIds_line_over:
  "loadPCIIds_line (t, c) l =
     (over_tables t (fst (loadPCIIds_line (empty_tables, c) l)),
      snd (loadPCIIds_line (empty_tables, c) l))"
  unfolding loadPCIIds_line_def Let_def
  by (simp add: over_tables_def empty_tables_def over_nested_empty
      put_nested_over [of "pciDevices t"] put_nested_over [of "pciSubsystems t"])

lemma foldl_loadPCIIds_line_over:
  "foldl loadPCIIds_line (t, c) ls =
     (over_tables t (fst (foldl loadPCIIds_line (empty_tables, c) ls)),
      snd (foldl loadPCIIds_line (empty_tables, c) ls))"
proof (induction ls arbitrary: t c)
  case Nil
  show ?case by (simp add: over_tables_empty)
next
  case (Cons l ls)
  obtain w c' where step: "loadPCIIds_line (empty_tables, c) l = (w, c')"
    by (cases "loadPCIIds_line (empty_tables, c) l")
  let ?rest = "foldl loadPCIIds_line (empty_tables, c') ls"
  have "loadPCIIds_line (t, c) l = (over_tables t w, c')"
    using loadPCIIds_line_over [of t c l] step by simp
  then have "foldl loadPCIIds_line (t, c) (l # ls) = foldl loadPCIIds_line (over_tables t w, c') ls"
    by simp
  also have "\<dots> = (over_tables (over_tables t w) (fst ?rest), snd ?rest)"
    by (rule Cons.IH)
  finally have left:
    "foldl loadPCIIds_line (t, c) (l # ls) = (over_tables (over_tables t w) (fst ?rest), snd ?rest)" .
  have "foldl loadPCIIds_line (empty_tables, c) (l # ls) = foldl loadPCIIds_line (w, c') ls"
    using step by simp
  also have "\<dots> = (over_tables w (fst ?rest), snd ?rest)"
    by (rule Cons.IH)
  finally have right:
    "foldl loadPCIIds_line (empty_tables, c) (l # ls) = (over_tables w (fst ?rest), snd ?rest)" .
  show ?case
    by (simp only: left right fst_conv snd_conv over_tables_assoc)
qed

lemma loadPCIIds_lines_twice:
  "loadPCIIds_lines ls (loadPCIIds_lines ls t) = loadPCIIds_lines ls t"
proof -
  let ?w = "fst (foldl loadPCIIds_line (empty_tables, initial_ctx) ls)"
  have one: "loadPCIIds_lines ls u = over_tables u ?w" for u
    unfolding loadPCIIds_lines_def using foldl_loadPCIIds_line_over [of u initial_ctx ls] by simp
  show ?thesis
    by (simp add: one over_tables_assoc over_tables_idem)
qed

text \<open>
  Claim C9: parsing the same database twice, the second run over the same lines and from
  the tables the first run produced, yields the tables of the first run. It holds from any
  starting tables \<open>t\<close>, the empty ones of the program's start among them, for the scanner
  loop and for \<^verbatim>\<open>loadPCIIds\<close> with its choice of the file.
\<close>

theorem loadPCIIds_idempotent:
  "loadPCIIds_lines ls (loadPCIIds_lines ls t) = loadPCIIds_lines ls t
   \<and> loadPCIIds files (loadPCIIds files t) = loadPCIIds files t"
  by (simp add: loadPCIIds_def loadPCIIds_lines_twice split: option.splits)

section \<open>Vendor-name resolution and the spelling of the prefix\<close>

lemmas ParseFloat_defs =
  ParseFloat_def special_def infinity_len_def readFloat_def read_exponent_def digit_of_def
  hexletter_of_def scale_def float64_overflows_def underscoreOK_def

lemma TrimPrefix_0x: "TrimPrefix (''0x'' @ v) ''0x'' = v"
  by (simp add: TrimPrefix_def HasPrefix_def)

lemma TrimPrefix_0X: "TrimPrefix (''0X'' @ v) ''0x'' = ''0X'' @ v"
  by (simp add: TrimPrefix_def HasPrefix_def)

lemma TrimPrefix_none: "\<not> HasPrefix v p \<Longrightarrow> TrimPrefix v p = v"
  by (simp add: TrimPrefix_def)

lemma ToLower_0X: "ToLower (''0X'' @ v) = ''0x'' @ ToLower v"
  by (simp add: ToLower_def lowerByte_def)

lemma intel_vendor:
  "pciVendors (loadPCIIds_lines intel_db empty_tables) ''8086'' = Some ''Intel Corporation''"
  "pciVendors (loadPCIIds_lines intel_db empty_tables) ''0x8086'' = None"
  by (simp_all add: intel_db_def loader_defs go_strings_defs)

text \<open>
  Claim C4, amended. Let \<open>v\<close> be a vendor id that does not itself start with \<^verbatim>\<open>0x\<close> and
  whose lowercase form is a key of the vendor table, with name \<open>name\<close>. Then the spellings
  \<^verbatim>\<open>0x\<close> + \<open>v\<close> and \<open>v\<close> both resolve to \<open>name\<close>. The spelling \<^verbatim>\<open>0X\<close> + \<open>v\<close> keeps its prefix,
  since only the lowercase prefix \<^verbatim>\<open>0x\<close> is stripped and the id is lowercased afterwards: it
  is looked up under \<^verbatim>\<open>0x\<close> + lowercase \<open>v\<close>, and that string is the result when the table
  has no such key.
\<close>

theorem getPCIVendorName_prefix_spellings:
  assumes "\<not> HasPrefix v ''0x''"
    and "pciVendors t (ToLower v) = Some name"
  shows "getPCIVendorName t (''0x'' @ v) = name
    \<and> getPCIVendorName t v = name
    \<and> getPCIVendorName t (''0X'' @ v) =
        (case pciVendors t (''0x'' @ ToLower v) of Some n \<Rightarrow> n | None \<Rightarrow> ''0x'' @ ToLower v)"
  using assms
  by (simp add: getPCIVendorName_def TrimPrefix_0x TrimPrefix_0X TrimPrefix_none ToLower_0X
      Let_def del: append.simps)

theorem getPCIVendorName_prefix_spellings_witness:
  "\<not> HasPrefix ''8086'' ''0x''
   \<and> pciVendors (loadPCIIds_lines intel_db empty_tables) (ToLower ''8086'')
       = Some ''Intel Corporation''
   \<and> getPCIVendorName (loadPCIIds_lines intel_db empty_tables) ''0x8086'' = ''Intel Corporation''
   \<and> getPCIVendorName (loadPCIIds_lines intel_db empty_tables) ''8086'' = ''Intel Corporation''
   \<and> getPCIVendorName (loadPCIIds_lines intel_db empty_tables) ''0X8086'' = ''0x8086''"
proof -
  have a: "\<not> HasPrefix ''8086'' ''0x''" by (simp add: HasPrefix_def)
  have l: "ToLower ''8086'' = ''8086''" by (simp add: ToLower_def lowerByte_def)
  have b: "pciVendors (loadPCIIds_lines intel_db empty_tables) (ToLower ''8086'')
      = Some ''Intel Corporation''"
    by (simp only: l intel_vendor)
  show ?thesis
    using getPCIVendorName_prefix_spellings [OF a b] a b l intel_vendor by simp
qed

text \<open>
  Claim C4 as stated fails: with the vendor \<^verbatim>\<open>8086\<close> in the table, \<^verbatim>\<open>0x8086\<close> and \<^verbatim>\<open>8086\<close>
  resolve to its name and \<^verbatim>\<open>0X8086\<close> resolves to \<^verbatim>\<open>0x8086\<close>.
\<close>

theorem vendor_name_uppercase_prefix_differs:
  "getPCIVendorName (loadPCIIds_lines intel_db empty_tables) ''0x8086'' = ''Intel Corporation''
   \<and> getPCIVendorName (loadPCIIds_lines intel_db empty_tables) ''8086'' = ''Intel Corporation''
   \<and> getPCIVendorName (loadPCIIds_lines intel_db empty_tables) ''0X8086'' = ''0x8086''"
  by (simp add: intel_db_def loader_defs go_strings_defs getPCIVendorName_def)

section \<open>The power-state normalizer\<close>

lemma lowerByte_is_d: "lowerByte c = CHR ''d'' \<Longrightarrow> c = CHR ''d'' \<or> c = CHR ''D''"
  by (auto simp: lowerByte_def split: if_splits)

lemma lowerByte_digit: "digit_of (lowerByte c) = Some n \<Longrightarrow> lowerByte c = c"
  by (auto simp: lowerByte_def digit_of_def split: if_splits)

lemma scan_mantissa_stop:
  "c \<noteq> CHR ''_'' \<Longrightarrow> c \<noteq> CHR ''.'' \<Longrightarrow> digit_of c = None \<Longrightarrow>
   scan_mantissa False sawdot sawdigits m fd (c # cs) = (m, fd, sawdigits, c # cs)"
  by simp

text \<open>A string that starts with neither a sign, a digit, a point nor an underscore is no number.\<close>

lemma readFloat_no_digit:
  assumes "c \<noteq> CHR ''_''" "c \<noteq> CHR ''.''" "digit_of c = None" "c \<noteq> CHR ''+''" "c \<noteq> CHR ''-''"
  shows "readFloat (c # cs) = None"
proof -
  have z: "c \<noteq> CHR ''0''" using assms(3) by (auto simp: digit_of_def)
  show ?thesis
    unfolding readFloat_def using assms z
    by (simp add: scan_mantissa_stop del: scan_mantissa.simps)
qed

lemma ParseFloat_d: "c = CHR ''d'' \<or> c = CHR ''D'' \<Longrightarrow> ParseFloat (c # cs) = Inl ErrSyntax"
proof -
  assume c: "c = CHR ''d'' \<or> c = CHR ''D''"
  have "special (c # cs) = None" using c by (auto simp: special_def)
  moreover have "readFloat (c # cs) = None"
    by (rule readFloat_no_digit) (use c in \<open>auto simp: digit_of_def\<close>)
  ultimately show ?thesis by (simp add: ParseFloat_def)
qed

lemma ToLower_Cons_d: "ToLower s = CHR ''d'' # r \<Longrightarrow> ParseFloat s = Inl ErrSyntax"
  by (cases s) (auto simp: ToLower_def dest!: lowerByte_is_d intro: ParseFloat_d)

lemma ParseFloat_digits:
  "ParseFloat ''0'' = Inr (Num 0)" "ParseFloat ''1'' = Inr (Num 1)" "ParseFloat ''2'' = Inr (Num 2)"
  "ParseFloat ''3'' = Inr (Num 3)" "ParseFloat ''4'' = Inr (Num 4)"
  by (simp_all add: ParseFloat_defs Let_def lowerByte_def)

lemma ToLower_one_digit:
  "ToLower s = [d] \<Longrightarrow> digit_of d = Some n \<Longrightarrow> s = [d]"
  by (cases s) (auto simp: ToLower_def dest: lowerByte_digit)

lemma parsePowerState_number:
  "ParseFloat (TrimSpace s) = Inr v \<Longrightarrow> parsePowerState s = Inr v"
  by (simp add: parsePowerState_def)

lemma digit_token_parses:
  assumes "ToLower t = [d]" and "d \<in> set ''01234''"
  shows "isOK (ParseFloat t)"
proof -
  obtain n where "digit_of d = Some n" using assms(2) by (auto simp: digit_of_def)
  then have "t = [d]" using assms(1) by (rule ToLower_one_digit [rotated])
  then show ?thesis using assms(2) ParseFloat_digits by auto
qed

lemma power_name_starts_with_d:
  "map_of power_state_names l = Some n \<Longrightarrow> \<exists>r. l = CHR ''d'' # r"
  by (auto simp: power_state_names_def split: if_splits)

text \<open>
  When the text is no number, the names decide: the cases \<^verbatim>\<open>"0"\<close> to \<^verbatim>\<open>"4"\<close> of the
  \<^verbatim>\<open>switch\<close> are never taken, since these strings are numbers.
\<close>

lemma parsePowerState_by_name:
  assumes "ParseFloat (TrimSpace s) = Inl e"
  shows "parsePowerState s =
     (case map_of power_state_names (ToLower (TrimSpace s)) of
        Some n \<Rightarrow> Inr (Num n)
      | None \<Rightarrow> Inl (UnknownPowerState (TrimSpace s)))"
proof -
  have "ToLower (TrimSpace s) \<noteq> [d]" if "d \<in> set ''01234''" for d
    using digit_token_parses [of "TrimSpace s" d] that assms by auto
  then have "ToLower (TrimSpace s) \<noteq> ''0''" "ToLower (TrimSpace s) \<noteq> ''1''"
    "ToLower (TrimSpace s) \<noteq> ''2''" "ToLower (TrimSpace s) \<noteq> ''3''"
    "ToLower (TrimSpace s) \<noteq> ''4''"
    by simp_all
  then show ?thesis
    using assms by (simp add: parsePowerState_def power_state_names_def)
qed

text \<open>
  Claim C5, amended. After trimming white space, the power-state normalizer returns the
  number when the text is one that \<^verbatim>\<open>strconv.ParseFloat\<close> accepts, whatever the number
  (\<^verbatim>\<open>0\<close> to \<^verbatim>\<open>4\<close> among them); otherwise it returns 0, 1, 2, 3, 4 for the names d0, d1, d2,
  d3hot, d3cold in any letter case, and an error for every other text. So it succeeds
  exactly when the trimmed text is a number or one of the five names, and each name gives
  its number.
\<close>

theorem parsePowerState_accepts:
  "parsePowerState s =
     (case ParseFloat (TrimSpace s) of
        Inr v \<Rightarrow> Inr v
      | Inl e \<Rightarrow>
          (case map_of power_state_names (ToLower (TrimSpace s)) of
             Some n \<Rightarrow> Inr (Num n)
           | None \<Rightarrow> Inl (UnknownPowerState (TrimSpace s))))
   \<and> (isOK (parsePowerState s) \<longleftrightarrow>
        isOK (ParseFloat (TrimSpace s))
        \<or> ToLower (TrimSpace s) \<in> set (map fst power_state_names))
   \<and> (map_of power_state_names (ToLower (TrimSpace s)) = Some n \<longrightarrow>
        parsePowerState s = Inr (Num n))"
proof -
  let ?t = "TrimSpace s"
  have eq: "parsePowerState s =
     (case ParseFloat ?t of
        Inr v \<Rightarrow> Inr v
      | Inl e \<Rightarrow>
          (case map_of power_state_names (ToLower ?t) of
             Some n \<Rightarrow> Inr (Num n)
           | None \<Rightarrow> Inl (UnknownPowerState ?t)))"
    by (cases "ParseFloat ?t") (simp_all add: parsePowerState_number parsePowerState_by_name)
  have dom: "ToLower ?t \<in> set (map fst power_state_names) \<longleftrightarrow>
      map_of power_state_names (ToLower ?t) \<noteq> None"
    by (simp add: map_of_eq_None_iff)
  have iff: "isOK (parsePowerState s) \<longleftrightarrow>
      isOK (ParseFloat ?t) \<or> ToLower ?t \<in> set (map fst power_state_names)"
    unfolding dom by (subst eq) (auto split: sum.splits option.splits)
  have name: "parsePowerState s = Inr (Num n)"
    if n: "map_of power_state_names (ToLower ?t) = Some n"
  proof -
    obtain r where "ToLower ?t = CHR ''d'' # r"
      using power_name_starts_with_d [OF n] by blast
    then have "ParseFloat ?t = Inl ErrSyntax" by (rule ToLower_Cons_d)
    then show ?thesis using n by (simp add: parsePowerState_by_name)
  qed
  show ?thesis using eq iff name by blast
qed

theorem parsePowerState_accepts_witness:
  "map_of power_state_names (ToLower (TrimSpace ''D3cold'')) = Some 4
   \<and> parsePowerState ''D3cold'' = Inr (Num 4)
   \<and> parsePowerState ''2'' = Inr (Num 2)
   \<and> \<not> isOK (parsePowerState ''garbage'')"
proof -
  have h: "map_of power_state_names (ToLower (TrimSpace ''D3cold'')) = Some 4"
    by (simp add: power_state_names_def go_strings_defs)
  have two: "ParseFloat (TrimSpace ''2'') = Inr (Num 2)"
    by (simp add: ParseFloat_defs go_strings_defs Let_def)
  have g1: "\<not> isOK (ParseFloat (TrimSpace ''garbage''))"
    by (simp add: ParseFloat_defs go_strings_defs Let_def)
  have g2: "ToLower (TrimSpace ''garbage'') \<notin> set (map fst power_state_names)"
    by (simp add: power_state_names_def go_strings_defs)
  have d: "parsePowerState ''D3cold'' = Inr (Num 4)"
    using parsePowerState_accepts [of "''D3cold''" 4] h by blast
  have t: "parsePowerState ''2'' = Inr (Num 2)"
    using parsePowerState_accepts [THEN conjunct1, of "''2''"] by (simp add: two)
  have g: "\<not> isOK (parsePowerState ''garbage'')"
    using parsePowerState_accepts [THEN conjunct2, THEN conjunct1, of "''garbage''"] g1 g2
    by blast
  show ?thesis using h d t g by blast
qed

text \<open>
  Claim C5 as stated fails: the text \<^verbatim>\<open>5\<close> is neither one of \<^verbatim>\<open>0\<close> to \<^verbatim>\<open>4\<close> nor a name of a
  power state, and the normalizer succeeds on it, with the value 5.
\<close>

theorem power_state_accepts_any_number:
  "parsePowerState ''5'' = Inr (Num 5)
   \<and> TrimSpace ''5'' \<notin> {''0'', ''1'', ''2'', ''3'', ''4''}
   \<and> ToLower (TrimSpace ''5'') \<notin> set (map fst power_state_names)"
  by (simp add: parsePowerState_def ParseFloat_defs Let_def power_state_names_def go_strings_defs)

section \<open>What the device collector sends\<close>

lemma send_valid:
  "list_all ValidString (labelValues m) \<Longrightarrow> send m s = Some (s\<lparr>sent := sent s @ [m]\<rparr>)"
  by (simp add: send_def)

lemma send_invalid: "\<not> list_all ValidString (labelValues m) \<Longrightarrow> send m s = None"
  by (simp add: send_def)

lemma numeric_step:
  assumes "ValidString i"
  shows "\<exists>s'. (let raw = x in
            if raw \<noteq> ''unknown'' then
              (case p raw of
                 Inr v \<Rightarrow> send \<lparr>desc = d, gauge = v, labelValues = [i]\<rparr> s
               | Inl e \<Rightarrow> Some (debug what (kvs raw) e s))
            else Some s) = Some s'
         \<and> sent s' = sent s @ numeric_metric d x (p x) i"
  using assms
  by (cases "p x") (auto simp: Let_def numeric_metric_def send_def debug_def)

lemma collectDeviceMetrics_sent:
  assumes "list_all ValidString (info_labels t (readFileContent dir) deviceID)"
  shows "\<exists>s'. collectDeviceMetrics t dir deviceID s0 = Some s'
           \<and> sent s' = sent s0 @ emitted t (readFileContent dir) deviceID"
proof -
  let ?r = "readFileContent dir"
  have i: "ValidString deviceID"
    using assms by (simp add: info_labels_def)
  let ?m = "\<lparr>desc = info, gauge = Num 1, labelValues = info_labels t ?r deviceID\<rparr>"
  obtain s1 where s1: "send ?m s0 = Some s1" "sent s1 = sent s0 @ [?m]"
    using assms by (simp add: send_def)
  obtain s2 where s2:
    "(let currentSpeedStr = ?r ''current_link_speed'' in
      if currentSpeedStr \<noteq> ''unknown'' then
        (case parseSpeed currentSpeedStr of
           Inr v \<Rightarrow> send \<lparr>desc = currentSpeed, gauge = v, labelValues = [deviceID]\<rparr> s1
         | Inl e \<Rightarrow>
             Some (debug ''failed to parse current speed''
               [(''device'', deviceID), (''speed'', currentSpeedStr)] e s1))
      else Some s1) = Some s2"
    "sent s2 = sent s1 @ numeric_metric currentSpeed (?r ''current_link_speed'')
        (parseSpeed (?r ''current_link_speed'')) deviceID"
    using numeric_step [OF i, where x = "?r ''current_link_speed''" and p = parseSpeed and d = currentSpeed and s = s1
        and what = "''failed to parse current speed''" and kvs = "\<lambda>raw. [(''device'', deviceID), (''speed'', raw)]"]
    by blast
  obtain s3 where s3:
    "(let currentWidthStr = ?r ''current_link_width'' in
      if currentWidthStr \<noteq> ''unknown'' then
        (case parseWidth currentWidthStr of
           Inr v \<Rightarrow> send \<lparr>desc = currentWidth, gauge = v, labelValues = [deviceID]\<rparr> s2
         | Inl e \<Rightarrow>
             Some (debug ''failed to parse current width''
               [(''device'', deviceID), (''width'', currentWidthStr)] e s2))
      else Some s2) = Some s3"
    "sent s3 = sent s2 @ numeric_metric currentWidth (?r ''current_link_width'')
        (parseWidth (?r ''current_link_width'')) deviceID"
    using numeric_step [OF i, where x = "?r ''current_link_width''" and p = parseWidth and d = currentWidth and s = s2
        and what = "''failed to parse current width''" and kvs = "\<lambda>raw. [(''device'', deviceID), (''width'', raw)]"]
    by blast
  obtain s4 where s4:
    "(let maxSpeedStr = ?r ''max_link_speed'' in
      if maxSpeedStr \<noteq> ''unknown'' then
        (case parseSpeed maxSpeedStr of
           Inr v \<Rightarrow> send \<lparr>desc = maxSpeed, gauge = v, labelValues = [deviceID]\<rparr> s3
         | Inl e \<Rightarrow>
             Some (debug ''failed to parse max speed''
               [(''device'', deviceID), (''speed'', maxSpeedStr)] e s3))
      else Some s3) = Some s4"
    "sent s4 = sent s3 @ numeric_metric maxSpeed (?r ''max_link_speed'')
        (parseSpeed (?r ''max_link_speed'')) deviceID"
    using numeric_step [OF i, where x = "?r ''max_link_speed''" and p = parseSpeed and d = maxSpeed and s = s3
        and what = "''failed to parse max speed''" and kvs = "\<lambda>raw. [(''device'', deviceID), (''speed'', raw)]"]
    by blast
  obtain s5 where s5:
    "(let maxWidthStr = ?r ''max_link_width'' in
      if maxWidthStr \<noteq> ''unknown'' then
        (case parseWidth maxWidthStr of
           Inr v \<Rightarrow> send \<lparr>desc = maxWidth, gauge = v, labelValues = [deviceID]\<rparr> s4
         | Inl e \<Rightarrow>
             Some (debug ''failed to parse max width''
               [(''device'', deviceID), (''width'', maxWidthStr)] e s4))
      else Some s4) = Some s5"
    "sent s5 = sent s4 @ numeric_metric maxWidth (?r ''max_link_width'')
        (parseWidth (?r ''max_link_width'')) deviceID"
    using numeric_step [OF i, where x = "?r ''max_link_width''" and p = parseWidth and d = maxWidth and s = s4
        and what = "''failed to parse max width''" and kvs = "\<lambda>raw. [(''device'', deviceID), (''width'', raw)]"]
    by blast
  obtain s6 where s6:
    "(let powerStateStr = ?r ''power_state'' in
      if powerStateStr \<noteq> ''unknown'' then
        (case parsePowerState powerStateStr of
           Inr v \<Rightarrow> send \<lparr>desc = powerState, gauge = v, labelValues = [deviceID]\<rparr> s5
         | Inl e \<Rightarrow>
             Some (debug ''failed to parse power state''
               [(''device'', deviceID), (''value'', powerStateStr)] e s5))
      else Some s5) = Some s6"
    "sent s6 = sent s5 @ numeric_metric powerState (?r ''power_state'')
        (parsePowerState (?r ''power_state'')) deviceID"
    using numeric_step [OF i, where x = "?r ''power_state''" and p = parsePowerState and d = powerState and s = s5
        and what = "''failed to parse power state''" and kvs = "\<lambda>raw. [(''device'', deviceID), (''value'', raw)]"]
    by blast
  obtain s7 where s7:
    "(let d3coldAllowedStr = ?r ''d3cold_allowed'' in
      if d3coldAllowedStr \<noteq> ''unknown'' then
        (case ParseFloat d3coldAllowedStr of
           Inr v \<Rightarrow> send \<lparr>desc = d3coldAllowed, gauge = v, labelValues = [deviceID]\<rparr> s6
         | Inl e \<Rightarrow>
             Some (debug ''failed to parse d3cold_allowed''
               [(''device'', deviceID), (''value'', d3coldAllowedStr)] e s6))
      else Some s6) = Some s7"
    "sent s7 = sent s6 @ numeric_metric d3coldAllowed (?r ''d3cold_allowed'')
        (ParseFloat (?r ''d3cold_allowed'')) deviceID"
    using numeric_step [OF i, where x = "?r ''d3cold_allowed''" and p = ParseFloat and d = d3coldAllowed and s = s6
        and what = "''failed to parse d3cold_allowed''" and kvs = "\<lambda>raw. [(''device'', deviceID), (''value'', raw)]"]
    by blast
  have m: "\<lparr>desc = info, gauge = Num 1,
       labelValues =
         [deviceID, ?r ''vendor'', getPCIVendorName t (?r ''vendor''), ?r ''device'',
          getPCIDeviceName t (?r ''vendor'') (?r ''device''), ?r ''subsystem_vendor'',
          getPCIVendorName t (?r ''subsystem_vendor''), ?r ''subsystem_device'',
          getPCISubsystemName t (?r ''vendor'') (?r ''device'') (?r ''subsystem_vendor'')
            (?r ''subsystem_device''),
          ?r ''class'', getPCIClassName t (?r ''class''), ?r ''revision'']\<rparr> = ?m"
    by (simp add: info_labels_def)
  have "collectDeviceMetrics t dir deviceID s0 = Some s7"
    unfolding collectDeviceMetrics_def
    by (simp only: Let_def [of "?r ''vendor''"] Let_def [of "?r ''device''"]
        Let_def [of "?r ''subsystem_vendor''"] Let_def [of "?r ''subsystem_device''"]
        Let_def [of "getPCIVendorName _ _"] Let_def [of "getPCIDeviceName _ _ _"]
        Let_def [of "getPCISubsystemName _ _ _ _ _"] Let_def [of "?r ''class''"]
        Let_def [of "getPCIClassName _ _"] Let_def [of "_ # _"]
        m s1 s2 s3 s4 s5 s6 s7 bind.simps)
  moreover have "sent s7 = sent s0 @ emitted t ?r deviceID"
    by (simp add: s1 s2 s3 s4 s5 s6 s7 emitted_def)
  ultimately show ?thesis by blast
qed

lemma collectDeviceMetrics_panics:
  assumes "\<not> list_all ValidString (info_labels t (readFileContent dir) deviceID)"
  shows "collectDeviceMetrics t dir deviceID s0 = None"
proof -
  have "send \<lparr>desc = info, gauge = Num 1,
       labelValues = info_labels t (readFileContent dir) deviceID\<rparr> s0 = None"
    using assms by (simp add: send_def)
  then show ?thesis
    unfolding collectDeviceMetrics_def info_labels_def Let_def by simp
qed

lemma desc_numeric_metric:
  "d \<in> desc ` set (numeric_metric d' raw p i) \<longleftrightarrow> d = d' \<and> raw \<noteq> ''unknown'' \<and> isOK p"
  by (cases p) (auto simp: numeric_metric_def)

lemma emitted_desc:
  "d \<in> desc ` set (emitted t r deviceID) \<longleftrightarrow>
     d = info
     \<or> d = currentSpeed \<and> r ''current_link_speed'' \<noteq> ''unknown''
         \<and> isOK (parseSpeed (r ''current_link_speed''))
     \<or> d = currentWidth \<and> r ''current_link_width'' \<noteq> ''unknown''
         \<and> isOK (parseWidth (r ''current_link_width''))
     \<or> d = maxSpeed \<and> r ''max_link_speed'' \<noteq> ''unknown''
         \<and> isOK (parseSpeed (r ''max_link_speed''))
     \<or> d = maxWidth \<and> r ''max_link_width'' \<noteq> ''unknown''
         \<and> isOK (parseWidth (r ''max_link_width''))
     \<or> d = powerState \<and> r ''power_state'' \<noteq> ''unknown''
         \<and> isOK (parsePowerState (r ''power_state''))
     \<or> d = d3coldAllowed \<and> r ''d3cold_allowed'' \<noteq> ''unknown''
         \<and> isOK (ParseFloat (r ''d3cold_allowed''))"
  unfolding emitted_def
  by (simp only: set_simps set_append image_insert image_Un insert_iff Un_iff
      desc_numeric_metric metric.simps)

lemma filter_numeric_metric_info:
  "filter (\<lambda>m. desc m = info) (numeric_metric d raw p i) = (if d = info then numeric_metric d raw p i else [])"
  by (cases p) (auto simp: numeric_metric_def)

lemma emitted_info:
  "filter (\<lambda>m. desc m = info) (emitted t r deviceID)
     = [\<lparr>desc = info, gauge = Num 1, labelValues = info_labels t r deviceID\<rparr>]"
  by (simp add: emitted_def filter_numeric_metric_info)

lemma Update_sent:
  assumes "list_all (\<lambda>(deviceID, dir).
             list_all ValidString (info_labels t (readFileContent dir) deviceID)) devices"
  shows "\<exists>s'. Update t devices s0 = Some s'
           \<and> sent s' = sent s0 @
                concat (map (\<lambda>(deviceID, dir). emitted t (readFileContent dir) deviceID) devices)"
  using assms
proof (induction devices arbitrary: s0)
  case Nil
  show ?case by simp
next
  case (Cons dev devices)
  obtain deviceID dir where dev: "dev = (deviceID, dir)"
    by (cases dev)
  have v: "list_all ValidString (info_labels t (readFileContent dir) deviceID)"
    using Cons.prems dev by simp
  obtain s1 where s1: "collectDeviceMetrics t dir deviceID s0 = Some s1"
    "sent s1 = sent s0 @ emitted t (readFileContent dir) deviceID"
    using collectDeviceMetrics_sent [OF v] by blast
  have rest: "list_all (\<lambda>(deviceID, dir).
             list_all ValidString (info_labels t (readFileContent dir) deviceID)) devices"
    using Cons.prems by simp
  obtain s' where s': "Update t devices s1 = Some s'"
    "sent s' = sent s1 @
       concat (map (\<lambda>(deviceID, dir). emitted t (readFileContent dir) deviceID) devices)"
    using Cons.IH [OF rest] by blast
  have "Update t (dev # devices) s0 = Some s'"
    by (simp add: dev s1 s')
  then show ?case
    by (simp add: dev s1 s')
qed

text \<open>
  Claim C7, amended. For a device whose twelve info label values are valid UTF-8 the
  collector returns, and what it sends after the metrics sent before is the list
  \<open>emitted\<close>: first the info metric, with value 1 and the label values built from the texts
  read and the names resolved from them, and it is the only info metric; then the metric of
  each of the six numeric attributes, which is in the list exactly when the text read is not
  the sentinel and the normalizer succeeds on it, whatever happened to the other attributes.
  A poll over devices that all have valid info label values returns and sends the metrics
  of each device in turn.
\<close>

theorem collectDeviceMetrics_emission:
  "(list_all ValidString (info_labels t (readFileContent dir) deviceID) \<longrightarrow>
      (\<exists>s'. collectDeviceMetrics t dir deviceID s0 = Some s'
         \<and> sent s' = sent s0 @ emitted t (readFileContent dir) deviceID))
   \<and> hd (emitted t (readFileContent dir) deviceID)
       = \<lparr>desc = info, gauge = Num 1,
          labelValues = info_labels t (readFileContent dir) deviceID\<rparr>
   \<and> filter (\<lambda>m. desc m = info) (emitted t (readFileContent dir) deviceID)
       = [\<lparr>desc = info, gauge = Num 1,
           labelValues = info_labels t (readFileContent dir) deviceID\<rparr>]
   \<and> (currentSpeed \<in> desc ` set (emitted t (readFileContent dir) deviceID) \<longleftrightarrow>
        readFileContent dir ''current_link_speed'' \<noteq> ''unknown''
        \<and> isOK (parseSpeed (readFileContent dir ''current_link_speed'')))
   \<and> (currentWidth \<in> desc ` set (emitted t (readFileContent dir) deviceID) \<longleftrightarrow>
        readFileContent dir ''current_link_width'' \<noteq> ''unknown''
        \<and> isOK (parseWidth (readFileContent dir ''current_link_width'')))
   \<and> (maxSpeed \<in> desc ` set (emitted t (readFileContent dir) deviceID) \<longleftrightarrow>
        readFileContent dir ''max_link_speed'' \<noteq> ''unknown''
        \<and> isOK (parseSpeed (readFileContent dir ''max_link_speed'')))
   \<and> (maxWidth \<in> desc ` set (emitted t (readFileContent dir) deviceID) \<longleftrightarrow>
        readFileContent dir ''max_link_width'' \<noteq> ''unknown''
        \<and> isOK (parseWidth (readFileContent dir ''max_link_width'')))
   \<and> (powerState \<in> desc ` set (emitted t (readFileContent dir) deviceID) \<longleftrightarrow>
        readFileContent dir ''power_state'' \<noteq> ''unknown''
        \<and> isOK (parsePowerState (readFileContent dir ''power_state'')))
   \<and> (d3coldAllowed \<in> desc ` set (emitted t (readFileContent dir) deviceID) \<longleftrightarrow>
        readFileContent dir ''d3cold_allowed'' \<noteq> ''unknown''
        \<and> isOK (ParseFloat (readFileContent dir ''d3cold_allowed'')))
   \<and> (list_all (\<lambda>(deviceID, dir).
          list_all ValidString (info_labels t (readFileContent dir) deviceID)) devices \<longrightarrow>
      (\<exists>s'. Update t devices s0 = Some s'
         \<and> sent s' = sent s0 @
              concat (map (\<lambda>(deviceID, dir). emitted t (readFileContent dir) deviceID) devices)))"
proof -
  have h: "hd (emitted t (readFileContent dir) deviceID)
       = \<lparr>desc = info, gauge = Num 1,
          labelValues = info_labels t (readFileContent dir) deviceID\<rparr>"
    by (simp add: emitted_def)
  show ?thesis
    using collectDeviceMetrics_sent [of t dir deviceID s0] Update_sent [of t devices s0]
    by (simp only: h emitted_info emitted_desc) simp
qed

lemma sample_dir_reads:
  "readFileContent sample_dir ''vendor'' = ''0x8086''"
  "readFileContent sample_dir ''device'' = ''0x1234''"
  "readFileContent sample_dir ''subsystem_vendor'' = ''unknown''"
  "readFileContent sample_dir ''subsystem_device'' = ''unknown''"
  "readFileContent sample_dir ''class'' = ''0x060400''"
  "readFileContent sample_dir ''revision'' = ''unknown''"
  "readFileContent sample_dir ''current_link_speed'' = ''8.0 GT/s PCIe''"
  "readFileContent sample_dir ''current_link_width'' = ''garbage''"
  "readFileContent sample_dir ''max_link_speed'' = ''unknown''"
  "readFileContent sample_dir ''max_link_width'' = ''x16''"
  "readFileContent sample_dir ''power_state'' = ''D0''"
  "readFileContent sample_dir ''d3cold_allowed'' = ''unknown''"
  by (simp_all add: readFileContent_def sample_dir_def go_strings_defs)

lemma sample_parses:
  "parseSpeed ''8.0 GT/s PCIe'' = Inr (Num 8)"
  "parseWidth ''garbage'' = Inl ErrSyntax"
  "parseWidth ''x16'' = Inr (Num 16)"
  "parsePowerState ''D0'' = Inr (Num 0)"
  by (simp_all add: parseSpeed_def parseWidth_def parsePowerState_def ParseFloat_defs
      go_strings_defs Let_def)

lemma sample_info_labels:
  "info_labels empty_tables (readFileContent sample_dir) ''0000:00:01.0'' =
     [''0000:00:01.0'', ''0x8086'', ''8086'', ''0x1234'', ''1234'', ''unknown'', ''unknown'',
      ''unknown'', ''unknown'', ''0x060400'', ''Unknown class (060400)'', ''unknown'']"
  by (simp add: info_labels_def sample_dir_reads getPCIVendorName_def getPCIDeviceName_def
      getPCISubsystemName_def getPCIClassName_def empty_tables_def go_strings_defs Let_def)

lemma sample_info_labels_valid:
  "list_all ValidString (info_labels empty_tables (readFileContent sample_dir) ''0000:00:01.0'')"
  by (simp add: sample_info_labels byte_between_def)

theorem collectDeviceMetrics_emission_witness:
  "list_all ValidString (info_labels empty_tables (readFileContent sample_dir) ''0000:00:01.0'')
   \<and> (\<exists>s'. collectDeviceMetrics empty_tables sample_dir ''0000:00:01.0'' empty_sink = Some s'
         \<and> map desc (sent s') = [info, currentSpeed, maxWidth, powerState]
         \<and> map gauge (sent s') = [Num 1, Num 8, Num 16, Num 0])
   \<and> (\<exists>s'. Update empty_tables [(''0000:00:01.0'', sample_dir), (''0000:00:02.0'', sample_dir)]
           empty_sink = Some s'
         \<and> length (sent s') = 8)"
proof -
  have e: "emitted empty_tables (readFileContent sample_dir) i =
     [\<lparr>desc = info, gauge = Num 1,
        labelValues = info_labels empty_tables (readFileContent sample_dir) i\<rparr>,
      \<lparr>desc = currentSpeed, gauge = Num 8, labelValues = [i]\<rparr>,
      \<lparr>desc = maxWidth, gauge = Num 16, labelValues = [i]\<rparr>,
      \<lparr>desc = powerState, gauge = Num 0, labelValues = [i]\<rparr>]" for i
    by (simp add: emitted_def numeric_metric_def sample_dir_reads sample_parses)
  have v: "list_all ValidString (info_labels empty_tables (readFileContent sample_dir) i)"
    if "i = ''0000:00:01.0'' \<or> i = ''0000:00:02.0''" for i
    using that sample_info_labels_valid
    by (auto simp: info_labels_def sample_info_labels byte_between_def)
  have one: "\<exists>s'. collectDeviceMetrics empty_tables sample_dir ''0000:00:01.0'' empty_sink = Some s'
         \<and> map desc (sent s') = [info, currentSpeed, maxWidth, powerState]
         \<and> map gauge (sent s') = [Num 1, Num 8, Num 16, Num 0]"
    using collectDeviceMetrics_emission [THEN conjunct1,
        of empty_tables sample_dir "''0000:00:01.0''" empty_sink] sample_info_labels_valid
    by (auto simp: e empty_sink_def)
  have two: "\<exists>s'. Update empty_tables [(''0000:00:01.0'', sample_dir), (''0000:00:02.0'', sample_dir)]
           empty_sink = Some s' \<and> length (sent s') = 8"
    using collectDeviceMetrics_emission [of empty_tables sample_dir "''0000:00:01.0''" empty_sink
        "[(''0000:00:01.0'', sample_dir), (''0000:00:02.0'', sample_dir)]"] v
    by (auto simp: e empty_sink_def)
  show ?thesis using sample_info_labels_valid one two by blast
qed

lemma t1: "TrimSpace [CHR 0xFF] = [CHR 0xFF]"
  by code_simp
lemma bad_dir_vendor: "readFileContent bad_dir ''vendor'' = [CHR 0xFF]"
  by (simp add: readFileContent_def bad_dir_def t1)

text \<open>
  Claim C7 as stated fails: the info metric is not sent unconditionally. A vendor file that
  holds the single byte \<^verbatim>\<open>0xFF\<close> is read as that byte, which is not valid UTF-8; building
  the info metric then panics, so the collector sends nothing for the device and the poll
  ends without a result.
\<close>

theorem info_metric_panics_on_invalid_label:
  "readFileContent bad_dir ''vendor'' = [CHR 0xFF]
   \<and> \<not> ValidString [CHR 0xFF]
   \<and> collectDeviceMetrics empty_tables bad_dir ''0000:00:01.0'' empty_sink = None
   \<and> Update empty_tables [(''0000:00:01.0'', bad_dir)] empty_sink = None"
proof -
  have n: "\<not> ValidString [CHR 0xFF]" by (simp add: byte_between_def)
  have "\<not> list_all ValidString
      (info_labels empty_tables (readFileContent bad_dir) ''0000:00:01.0'')"
    unfolding info_labels_def bad_dir_vendor using n by simp
  then have c: "collectDeviceMetrics empty_tables bad_dir ''0000:00:01.0'' s = None" for s
    by (rule collectDeviceMetrics_panics)
  have u: "Update empty_tables [(''0000:00:01.0'', bad_dir)] empty_sink = None"
    by (simp add: c)
  show ?thesis using n bad_dir_vendor c u by blast
qed

section \<open>A file that holds the sentinel\<close>

lemma readFileContent_unknown_content:
  assumes "TrimSpace content = ''unknown''"
  shows "readFileContent (dir(name \<mapsto> content)) = with_sentinel dir name"
  using assms by (auto simp: readFileContent_def with_sentinel_def fun_eq_iff)

lemma readFileContent_missing:
  "readFileContent (dir(name := None)) = with_sentinel dir name"
  by (auto simp: readFileContent_def with_sentinel_def fun_eq_iff)

lemma collectDeviceMetrics_cong:
  "readFileContent dir = readFileContent dir' \<Longrightarrow>
   collectDeviceMetrics t dir deviceID s0 = collectDeviceMetrics t dir' deviceID s0"
  by (simp only: collectDeviceMetrics_def)

lemma numeric_attribute_omitted:
  assumes "(name, d) \<in> set numeric_attributes" and "r name = ''unknown''"
  shows "d \<notin> desc ` set (emitted t r deviceID)"
  using assms unfolding emitted_desc numeric_attributes_def by auto

lemma with_sentinel_labels:
  "info_labels t (with_sentinel dir ''vendor'') deviceID ! 1 = ''unknown''"
  "info_labels t (with_sentinel dir ''vendor'') deviceID ! 2 = getPCIVendorName t ''unknown''"
  "info_labels t (with_sentinel dir ''vendor'') deviceID ! 4
     = getPCIDeviceName t ''unknown'' (readFileContent dir ''device'')"
  "info_labels t (with_sentinel dir ''device'') deviceID ! 3 = ''unknown''"
  "info_labels t (with_sentinel dir ''device'') deviceID ! 4
     = getPCIDeviceName t (readFileContent dir ''vendor'') ''unknown''"
  "info_labels t (with_sentinel dir ''subsystem_vendor'') deviceID ! 5 = ''unknown''"
  "info_labels t (with_sentinel dir ''subsystem_vendor'') deviceID ! 6
     = getPCIVendorName t ''unknown''"
  "info_labels t (with_sentinel dir ''subsystem_device'') deviceID ! 7 = ''unknown''"
  "info_labels t (with_sentinel dir ''subsystem_device'') deviceID ! 8
     = getPCISubsystemName t (readFileContent dir ''vendor'') (readFileContent dir ''device'')
         (readFileContent dir ''subsystem_vendor'') ''unknown''"
  "info_labels t (with_sentinel dir ''class'') deviceID ! 9 = ''unknown''"
  "info_labels t (with_sentinel dir ''class'') deviceID ! 10 = getPCIClassName t ''unknown''"
  by (simp_all add: info_labels_def with_sentinel_def)

text \<open>
  Claim C10. An attribute file whose content is the word \<^verbatim>\<open>unknown\<close> after trimming is read
  as the sentinel, like a missing file, so every attribute is read as from the directory
  without the file and the collector does the same on both directories. When the info
  label values then read are valid UTF-8 the collector returns and sends the metrics of
  these texts; whenever it returns, the metric of a numeric attribute with such a file is
  not among what it sent. For each of the five identifier attributes (vendor, device,
  subsystem vendor, subsystem device, class) the label of the raw id is the word
  \<^verbatim>\<open>unknown\<close> and the label of the name is what the resolver returns on that word as the id.
\<close>

theorem unknown_content_is_missing_file:
  assumes "TrimSpace content = ''unknown''"
  shows "readFileContent (dir(name \<mapsto> content)) = with_sentinel dir name
    \<and> readFileContent (dir(name := None)) = with_sentinel dir name
    \<and> collectDeviceMetrics t (dir(name \<mapsto> content)) deviceID s0
        = collectDeviceMetrics t (dir(name := None)) deviceID s0
    \<and> (list_all ValidString (info_labels t (with_sentinel dir name) deviceID) \<longrightarrow>
         (\<exists>s'. collectDeviceMetrics t (dir(name \<mapsto> content)) deviceID s0 = Some s'
            \<and> sent s' = sent s0 @ emitted t (with_sentinel dir name) deviceID))
    \<and> ((name, d) \<in> set numeric_attributes
          \<and> collectDeviceMetrics t (dir(name \<mapsto> content)) deviceID s0 = Some s' \<longrightarrow>
          d \<notin> desc ` set (drop (length (sent s0)) (sent s')))
    \<and> (name = ''vendor'' \<longrightarrow>
          info_labels t (with_sentinel dir name) deviceID ! 1 = ''unknown''
          \<and> info_labels t (with_sentinel dir name) deviceID ! 2 = getPCIVendorName t ''unknown''
          \<and> info_labels t (with_sentinel dir name) deviceID ! 4
              = getPCIDeviceName t ''unknown'' (readFileContent dir ''device''))
    \<and> (name = ''device'' \<longrightarrow>
          info_labels t (with_sentinel dir name) deviceID ! 3 = ''unknown''
          \<and> info_labels t (with_sentinel dir name) deviceID ! 4
              = getPCIDeviceName t (readFileContent dir ''vendor'') ''unknown'')
    \<and> (name = ''subsystem_vendor'' \<longrightarrow>
          info_labels t (with_sentinel dir name) deviceID ! 5 = ''unknown''
          \<and> info_labels t (with_sentinel dir name) deviceID ! 6 = getPCIVendorName t ''unknown'')
    \<and> (name = ''subsystem_device'' \<longrightarrow>
          info_labels t (with_sentinel dir name) deviceID ! 7 = ''unknown''
          \<and> info_labels t (with_sentinel dir name) deviceID ! 8
              = getPCISubsystemName t (readFileContent dir ''vendor'')
                  (readFileContent dir ''device'') (readFileContent dir ''subsystem_vendor'')
                  ''unknown'')
    \<and> (name = ''class'' \<longrightarrow>
          info_labels t (with_sentinel dir name) deviceID ! 9 = ''unknown''
          \<and> info_labels t (with_sentinel dir name) deviceID ! 10 = getPCIClassName t ''unknown'')"
proof -
  let ?d = "dir(name \<mapsto> content)"
  have eq: "readFileContent ?d = with_sentinel dir name"
    using assms by (rule readFileContent_unknown_content)
  have eq': "readFileContent (dir(name := None)) = with_sentinel dir name"
    by (rule readFileContent_missing)
  have c: "collectDeviceMetrics t ?d deviceID s0
        = collectDeviceMetrics t (dir(name := None)) deviceID s0"
    by (rule collectDeviceMetrics_cong) (simp add: eq eq')
  have s: "list_all ValidString (info_labels t (with_sentinel dir name) deviceID) \<longrightarrow>
         (\<exists>s'. collectDeviceMetrics t ?d deviceID s0 = Some s'
            \<and> sent s' = sent s0 @ emitted t (with_sentinel dir name) deviceID)"
    using collectDeviceMetrics_sent [of t ?d deviceID s0] by (simp add: eq)
  have r: "with_sentinel dir name name = ''unknown''"
    by (simp add: with_sentinel_def)
  have n: "d \<notin> desc ` set (drop (length (sent s0)) (sent s'))"
    if a: "(name, d) \<in> set numeric_attributes"
      and b: "collectDeviceMetrics t ?d deviceID s0 = Some s'"
  proof -
    have "list_all ValidString (info_labels t (readFileContent ?d) deviceID)"
      using b collectDeviceMetrics_panics [of t ?d deviceID s0] by (cases ?thesis) simp_all
    then have "sent s' = sent s0 @ emitted t (with_sentinel dir name) deviceID"
      using collectDeviceMetrics_sent [of t ?d deviceID s0] b by (auto simp: eq)
    then show ?thesis
      using numeric_attribute_omitted [OF a, where r = "with_sentinel dir name"] r by simp
  qed
  show ?thesis
    using eq eq' c s n with_sentinel_labels [of t dir deviceID] by blast
qed

lemma unknown_padded: "TrimSpace ('' unknown'' @ [CHR 0x0A]) = ''unknown''"
  by code_simp

lemma resolve_unknown:
  "getPCIVendorName empty_tables ''unknown'' = ''unknown''"
  "getPCIDeviceName empty_tables ''0x8086'' ''unknown'' = ''unknown''"
  "getPCIDeviceName empty_tables ''unknown'' ''0x1234'' = ''1234''"
  "getPCISubsystemName empty_tables ''0x8086'' ''0x1234'' ''unknown'' ''unknown'' = ''unknown''"
  "getPCIClassName empty_tables ''unknown'' = ''Unknown class (unknown)''"
  by (simp_all add: getPCIVendorName_def getPCIDeviceName_def
      getPCISubsystemName_def getPCIClassName_def empty_tables_def go_strings_defs Let_def)

theorem unknown_content_is_missing_file_witness:
  "TrimSpace ('' unknown'' @ [CHR 0x0A]) = ''unknown''
   \<and> (''power_state'', powerState) \<in> set numeric_attributes
   \<and> list_all ValidString
        (info_labels empty_tables (with_sentinel sample_dir ''power_state'') ''0000:00:01.0'')
   \<and> (\<exists>s'. collectDeviceMetrics empty_tables
              (sample_dir(''power_state'' \<mapsto> '' unknown'' @ [CHR 0x0A])) ''0000:00:01.0''
              empty_sink = Some s'
          \<and> map desc (sent s') = [info, currentSpeed, maxWidth])
   \<and> collectDeviceMetrics empty_tables
        (sample_dir(''power_state'' \<mapsto> '' unknown'' @ [CHR 0x0A])) ''0000:00:01.0'' empty_sink
       = collectDeviceMetrics empty_tables (sample_dir(''power_state'' := None)) ''0000:00:01.0''
           empty_sink
   \<and> info_labels empty_tables (with_sentinel sample_dir ''vendor'') ''0000:00:01.0'' ! 1
       = ''unknown''
   \<and> info_labels empty_tables (with_sentinel sample_dir ''vendor'') ''0000:00:01.0'' ! 2
       = ''unknown''
   \<and> info_labels empty_tables (with_sentinel sample_dir ''vendor'') ''0000:00:01.0'' ! 4
       = ''1234''
   \<and> info_labels empty_tables (with_sentinel sample_dir ''device'') ''0000:00:01.0'' ! 3
       = ''unknown''
   \<and> info_labels empty_tables (with_sentinel sample_dir ''device'') ''0000:00:01.0'' ! 4
       = ''unknown''
   \<and> info_labels empty_tables (with_sentinel sample_dir ''subsystem_vendor'') ''0000:00:01.0'' ! 6
       = ''unknown''
   \<and> info_labels empty_tables (with_sentinel sample_dir ''subsystem_device'') ''0000:00:01.0'' ! 8
       = ''unknown''
   \<and> info_labels empty_tables (with_sentinel sample_dir ''class'') ''0000:00:01.0'' ! 10
       = ''Unknown class (unknown)''"
proof -
  let ?c = "'' unknown'' @ [CHR 0x0A]"
  let ?i = "''0000:00:01.0''"
  note T = unknown_content_is_missing_file [OF unknown_padded]
  have a: "(''power_state'', powerState) \<in> set numeric_attributes"
    by (simp add: numeric_attributes_def)
  have l: "info_labels empty_tables (with_sentinel sample_dir ''power_state'') ?i
        = info_labels empty_tables (readFileContent sample_dir) ?i"
    by (simp add: info_labels_def with_sentinel_def)
  have v: "list_all ValidString
        (info_labels empty_tables (with_sentinel sample_dir ''power_state'') ?i)"
    unfolding l by (rule sample_info_labels_valid)
  have e: "emitted empty_tables (with_sentinel sample_dir ''power_state'') ?i =
     [\<lparr>desc = info, gauge = Num 1,
        labelValues = info_labels empty_tables (readFileContent sample_dir) ?i\<rparr>,
      \<lparr>desc = currentSpeed, gauge = Num 8, labelValues = [?i]\<rparr>,
      \<lparr>desc = maxWidth, gauge = Num 16, labelValues = [?i]\<rparr>]"
    by (simp add: emitted_def numeric_metric_def with_sentinel_def sample_dir_reads
        sample_parses l [unfolded with_sentinel_def])
  have p: "\<exists>s'. collectDeviceMetrics empty_tables (sample_dir(''power_state'' \<mapsto> ?c)) ?i
              empty_sink = Some s'
          \<and> map desc (sent s') = [info, currentSpeed, maxWidth]"
    using T [where t = empty_tables and dir = sample_dir and name = "''power_state''"
        and deviceID = ?i and ?s0.0 = empty_sink and d = powerState,
        THEN conjunct2, THEN conjunct2, THEN conjunct2, THEN conjunct1] v
    by (auto simp: e empty_sink_def)
  have q: "collectDeviceMetrics empty_tables (sample_dir(''power_state'' \<mapsto> ?c)) ?i empty_sink
       = collectDeviceMetrics empty_tables (sample_dir(''power_state'' := None)) ?i empty_sink"
    using T [where t = empty_tables and dir = sample_dir and name = "''power_state''"
        and deviceID = ?i and ?s0.0 = empty_sink and d = powerState,
        THEN conjunct2, THEN conjunct2, THEN conjunct1] .
  have r1: "info_labels empty_tables (with_sentinel sample_dir ''vendor'') ?i ! 1 = ''unknown''
      \<and> info_labels empty_tables (with_sentinel sample_dir ''vendor'') ?i ! 2 = ''unknown''
      \<and> info_labels empty_tables (with_sentinel sample_dir ''vendor'') ?i ! 4 = ''1234''"
    using T [where t = empty_tables and dir = sample_dir and name = "''vendor''"
        and deviceID = ?i and ?s0.0 = empty_sink and d = powerState]
    by (simp add: sample_dir_reads resolve_unknown)
  have r2: "info_labels empty_tables (with_sentinel sample_dir ''device'') ?i ! 3 = ''unknown''
      \<and> info_labels empty_tables (with_sentinel sample_dir ''device'') ?i ! 4 = ''unknown''"
    using T [where t = empty_tables and dir = sample_dir and name = "''device''"
        and deviceID = ?i and ?s0.0 = empty_sink and d = powerState]
    by (simp add: sample_dir_reads resolve_unknown)
  have r3: "info_labels empty_tables (with_sentinel sample_dir ''subsystem_vendor'') ?i ! 6
       = ''unknown''"
    using T [where t = empty_tables and dir = sample_dir and name = "''subsystem_vendor''"
        and deviceID = ?i and ?s0.0 = empty_sink and d = powerState]
    by (simp add: sample_dir_reads resolve_unknown)
  have r4: "info_labels empty_tables (with_sentinel sample_dir ''subsystem_device'') ?i ! 8
       = ''unknown''"
    using T [where t = empty_tables and dir = sample_dir and name = "''subsystem_device''"
        and deviceID = ?i and ?s0.0 = empty_sink and d = powerState]
    by (simp add: sample_dir_reads resolve_unknown)
  have r5: "info_labels empty_tables (with_sentinel sample_dir ''class'') ?i ! 10
       = ''Unknown class (unknown)''"
    using T [where t = empty_tables and dir = sample_dir and name = "''class''"
        and deviceID = ?i and ?s0.0 = empty_sink and d = powerState]
    by (simp add: sample_dir_reads resolve_unknown)
  show ?thesis using unknown_padded a v p q r1 r2 r3 r4 r5 by blast
qed

section \<open>The two variants of the systemd state parser\<close>

















section \<open>The keys of the tables\<close>

lemma HasPrefix_two_tabs: "HasPrefix l [TAB, TAB] \<Longrightarrow> HasPrefix l [TAB]"
  by (cases l) (auto simp: HasPrefix_def)

lemma ToLower_drop: "ToLower (drop n s) = drop n (ToLower s)"
  by (simp add: ToLower_def drop_map)

lemma normalize_id_lower: "ToLower s = s \<Longrightarrow> normalize_id s = TrimPrefix s ''0x''"
  by (simp add: normalize_id_def TrimPrefix_def ToLower_drop)

text \<open>
  Claim C3, amended. Every name resolver looks an id up under its normal form (prefix
  \<^verbatim>\<open>0x\<close> stripped, then lowercase). Vendor-name and device-name resolution look the normal
  forms up and fall back to the normal form of the id. Subsystem-name resolution, on ids
  that are in lowercase, looks up the normal forms joined by a colon and falls back to the
  normal form of the subsystem device id. Class-name resolution depends on the normal form
  of the class id only, and for a normal form of at most four characters it looks up that
  form in the subclass table when it has four characters, then its first two characters in
  the class table, and falls back to \<^verbatim>\<open>Unknown class (\<close>normal form\<^verbatim>\<open>)\<close>. The loader does not
  normalize: a vendor line, a class line and a subclass line each insert the id text of the
  line with surrounding white space trimmed and nothing else changed (after the \<^verbatim>\<open>C\<close> for
  a class, prefixed with the current base class for a subclass).
\<close>

theorem identifier_keys:
  "getPCIVendorName t v =
     (case pciVendors t (normalize_id v) of Some name \<Rightarrow> name | None \<Rightarrow> normalize_id v)
   \<and> getPCIDeviceName t v d =
     (case pciDevices t (normalize_id v) of
        Some devices \<Rightarrow>
          (case devices (normalize_id d) of Some name \<Rightarrow> name | None \<Rightarrow> normalize_id d)
      | None \<Rightarrow> normalize_id d)
   \<and> (ToLower v = v \<and> ToLower d = d \<and> ToLower sv = sv \<and> ToLower sd = sd \<longrightarrow>
       getPCISubsystemName t v d sv sd =
         (case pciSubsystems t (normalize_id v @ '':'' @ normalize_id d) of
            Some subsystems \<Rightarrow>
              (case subsystems (normalize_id sv @ '':'' @ normalize_id sd) of
                 Some name \<Rightarrow> name
               | None \<Rightarrow> normalize_id sd)
          | None \<Rightarrow> normalize_id sd))
   \<and> (normalize_id k = normalize_id k' \<longrightarrow> getPCIClassName t k = getPCIClassName t k')
   \<and> (length (normalize_id k) \<le> 4 \<longrightarrow>
       getPCIClassName t k =
         (case (if length (normalize_id k) = 4 then pciSubclasses t (normalize_id k) else None) of
            Some name \<Rightarrow> name
          | None \<Rightarrow>
              (case (if 2 \<le> length (normalize_id k)
                     then pciClasses t (take 2 (normalize_id k)) else None) of
                 Some name \<Rightarrow> name
               | None \<Rightarrow> ''Unknown class ('' @ normalize_id k @ '')'')))
   \<and> (l \<noteq> [] \<and> \<not> HasPrefix l ''#'' \<and> \<not> HasPrefix l ''C'' \<and> \<not> HasPrefix l [TAB]
        \<and> SplitN2 l ''  '' = [i, n] \<longrightarrow>
       pciVendors (fst (loadPCIIds_line (t, c) l)) = (pciVendors t)(TrimSpace i \<mapsto> TrimSpace n))
   \<and> (HasPrefix l ''C'' \<and> SplitN2 l ''  '' = [i, n] \<longrightarrow>
       pciClasses (fst (loadPCIIds_line (t, c) l))
         = (pciClasses t)(TrimSpace (drop 1 i) \<mapsto> TrimSpace n))
   \<and> (HasPrefix l [TAB] \<and> \<not> HasPrefix l [TAB, TAB] \<and> currentBaseClass c \<noteq> []
        \<and> SplitN2 (drop 1 l) ''  '' = [i, n] \<longrightarrow>
       pciSubclasses (fst (loadPCIIds_line (t, c) l))
         = (pciSubclasses t)(currentBaseClass c @ TrimSpace i \<mapsto> TrimSpace n))"
proof -
  have ven: "getPCIVendorName t v =
     (case pciVendors t (normalize_id v) of Some name \<Rightarrow> name | None \<Rightarrow> normalize_id v)"
    by (simp add: getPCIVendorName_def normalize_id_def Let_def split: option.splits)
  have dev: "getPCIDeviceName t v d =
     (case pciDevices t (normalize_id v) of
        Some devices \<Rightarrow>
          (case devices (normalize_id d) of Some name \<Rightarrow> name | None \<Rightarrow> normalize_id d)
      | None \<Rightarrow> normalize_id d)"
    by (simp add: getPCIDeviceName_def normalize_id_def Let_def split: option.splits)
  have sub: "ToLower v = v \<and> ToLower d = d \<and> ToLower sv = sv \<and> ToLower sd = sd \<longrightarrow>
       getPCISubsystemName t v d sv sd =
         (case pciSubsystems t (normalize_id v @ '':'' @ normalize_id d) of
            Some subsystems \<Rightarrow>
              (case subsystems (normalize_id sv @ '':'' @ normalize_id sd) of
                 Some name \<Rightarrow> name
               | None \<Rightarrow> normalize_id sd)
          | None \<Rightarrow> normalize_id sd)"
    by (simp add: getPCISubsystemName_def normalize_id_lower Let_def split: option.splits)
  have ca: "normalize_id k = normalize_id k' \<longrightarrow> getPCIClassName t k = getPCIClassName t k'"
    by (simp add: getPCIClassName_def normalize_id_def)
  have cb: "length (normalize_id k) \<le> 4 \<longrightarrow>
       getPCIClassName t k =
         (case (if length (normalize_id k) = 4 then pciSubclasses t (normalize_id k) else None) of
            Some name \<Rightarrow> name
          | None \<Rightarrow>
              (case (if 2 \<le> length (normalize_id k)
                     then pciClasses t (take 2 (normalize_id k)) else None) of
                 Some name \<Rightarrow> name
               | None \<Rightarrow> ''Unknown class ('' @ normalize_id k @ '')''))"
    by (auto simp: getPCIClassName_def normalize_id_def Let_def split: option.splits)
  have vl: "l \<noteq> [] \<and> \<not> HasPrefix l ''#'' \<and> \<not> HasPrefix l ''C'' \<and> \<not> HasPrefix l [TAB]
        \<and> SplitN2 l ''  '' = [i, n] \<longrightarrow>
       pciVendors (fst (loadPCIIds_line (t, c) l)) = (pciVendors t)(TrimSpace i \<mapsto> TrimSpace n)"
    using HasPrefix_two_tabs [of l] by (auto simp: loadPCIIds_line_def Let_def)
  have hash: "HasPrefix l ''C'' \<Longrightarrow> l \<noteq> [] \<and> \<not> HasPrefix l ''#''"
    by (cases l) (auto simp: HasPrefix_def)
  have cl: "HasPrefix l ''C'' \<and> SplitN2 l ''  '' = [i, n] \<longrightarrow>
       pciClasses (fst (loadPCIIds_line (t, c) l))
         = (pciClasses t)(TrimSpace (drop 1 i) \<mapsto> TrimSpace n)"
    using hash by (auto simp: loadPCIIds_line_def Let_def)
  have tab: "HasPrefix l [TAB] \<Longrightarrow> l \<noteq> [] \<and> \<not> HasPrefix l ''#'' \<and> \<not> HasPrefix l ''C''
      \<and> TrimPrefix l [TAB] = drop 1 l"
    by (cases l) (auto simp: HasPrefix_def TrimPrefix_def)
  have sl: "HasPrefix l [TAB] \<and> \<not> HasPrefix l [TAB, TAB] \<and> currentBaseClass c \<noteq> []
        \<and> SplitN2 (drop 1 l) ''  '' = [i, n] \<longrightarrow>
       pciSubclasses (fst (loadPCIIds_line (t, c) l))
         = (pciSubclasses t)(currentBaseClass c @ TrimSpace i \<mapsto> TrimSpace n)"
    using tab by (auto simp: loadPCIIds_line_def Let_def)
  show ?thesis
    using ven dev sub ca cb vl cl sl by blast
qed

theorem identifier_keys_witness:
  "ToLower ''0x8086'' = ''0x8086'' \<and> ToLower ''0x1234'' = ''0x1234'' \<and> ToLower ''0x00ab'' = ''0x00ab''
   \<and> getPCISubsystemName empty_tables ''0x8086'' ''0x1234'' ''0x8086'' ''0x00ab'' = ''00ab''
   \<and> normalize_id ''0x0604'' = normalize_id ''0604'' \<and> length (normalize_id ''0x0604'') \<le> 4
   \<and> getPCIClassName (loadPCIIds_lines bridge_db empty_tables) ''0x0604''
       = getPCIClassName (loadPCIIds_lines bridge_db empty_tables) ''0604''
   \<and> getPCIClassName (loadPCIIds_lines bridge_db empty_tables) ''0x0604'' = ''PCI bridge''
   \<and> SplitN2 (intel_db ! 0) ''  '' = [''8086'', ''Intel Corporation'']
   \<and> pciVendors (fst (loadPCIIds_line (empty_tables, initial_ctx) (intel_db ! 0))) ''8086''
       = Some ''Intel Corporation''
   \<and> SplitN2 (bridge_db ! 0) ''  '' = [''C 06'', ''Bridge'']
   \<and> pciClasses (fst (loadPCIIds_line (empty_tables, initial_ctx) (bridge_db ! 0))) ''06''
       = Some ''Bridge''
   \<and> SplitN2 (drop 1 (bridge_db ! 1)) ''  '' = [''04'', ''PCI bridge'']
   \<and> pciSubclasses (fst (loadPCIIds_line (empty_tables, in_class_ctx) (bridge_db ! 1))) ''0604''
       = Some ''PCI bridge''"
proof -
  have low: "ToLower ''0x8086'' = ''0x8086''" "ToLower ''0x1234'' = ''0x1234''"
    "ToLower ''0x00ab'' = ''0x00ab''"
    by (simp_all add: go_strings_defs)
  have n: "normalize_id ''0x00ab'' = ''00ab''"
    by (simp add: normalize_id_def go_strings_defs)
  have e: "pciSubsystems empty_tables k = None" for k
    by (simp add: empty_tables_def)
  have sub: "getPCISubsystemName empty_tables ''0x8086'' ''0x1234'' ''0x8086'' ''0x00ab'' = ''00ab''"
    using identifier_keys [where v = "''0x8086''" and d = "''0x1234''" and sv = "''0x8086''" and sd = "''0x00ab''"
        and t = empty_tables,
        THEN conjunct2, THEN conjunct2, THEN conjunct1] low
    by (simp add: e n)
  have k: "normalize_id ''0x0604'' = ''0604''" "normalize_id ''0604'' = ''0604''"
    by (simp_all add: normalize_id_def go_strings_defs)
  have kk: "normalize_id ''0x0604'' = normalize_id ''0604''"
    by (simp add: k)
  have kl: "length (normalize_id ''0x0604'') \<le> 4"
    by (simp add: k)
  have b4: "pciSubclasses (loadPCIIds_lines bridge_db empty_tables) ''0604'' = Some ''PCI bridge''"
    by (simp add: bridge_db_def loader_defs go_strings_defs)
  have k1: "getPCIClassName (loadPCIIds_lines bridge_db empty_tables) ''0x0604''
       = getPCIClassName (loadPCIIds_lines bridge_db empty_tables) ''0604''"
    using identifier_keys [where k = "''0x0604''" and k' = "''0604''"
        and t = "loadPCIIds_lines bridge_db empty_tables",
        THEN conjunct2, THEN conjunct2, THEN conjunct2, THEN conjunct1] k
    by simp
  have k2: "getPCIClassName (loadPCIIds_lines bridge_db empty_tables) ''0x0604'' = ''PCI bridge''"
    using identifier_keys [where k = "''0x0604''"
        and t = "loadPCIIds_lines bridge_db empty_tables",
        THEN conjunct2, THEN conjunct2, THEN conjunct2, THEN conjunct2, THEN conjunct1]
    by (simp add: k b4)
  have v1: "intel_db ! 0 \<noteq> [] \<and> \<not> HasPrefix (intel_db ! 0) ''#'' \<and> \<not> HasPrefix (intel_db ! 0) ''C''
      \<and> \<not> HasPrefix (intel_db ! 0) [TAB]
      \<and> SplitN2 (intel_db ! 0) ''  '' = [''8086'', ''Intel Corporation'']"
    by (simp add: intel_db_def go_strings_defs)
  have t: "TrimSpace ''8086'' = ''8086''" "TrimSpace ''Intel Corporation'' = ''Intel Corporation''"
    "TrimSpace '' 06'' = ''06''" "TrimSpace ''Bridge'' = ''Bridge''"
    "TrimSpace ''04'' = ''04''" "TrimSpace ''PCI bridge'' = ''PCI bridge''"
    by (simp_all add: go_strings_defs)
  have ven: "pciVendors (fst (loadPCIIds_line (empty_tables, initial_ctx) (intel_db ! 0))) ''8086''
       = Some ''Intel Corporation''"
    using identifier_keys [where l = "intel_db ! 0" and i = "''8086''" and n = "''Intel Corporation''"
        and t = empty_tables and c = initial_ctx,
        THEN conjunct2, THEN conjunct2, THEN conjunct2, THEN conjunct2, THEN conjunct2, THEN conjunct1] v1
    by (simp add: t)
  have c1: "HasPrefix (bridge_db ! 0) ''C''
      \<and> SplitN2 (bridge_db ! 0) ''  '' = [''C 06'', ''Bridge'']"
    by (simp add: bridge_db_def go_strings_defs)
  have cls: "pciClasses (fst (loadPCIIds_line (empty_tables, initial_ctx) (bridge_db ! 0))) ''06''
       = Some ''Bridge''"
    using identifier_keys [where l = "bridge_db ! 0" and i = "''C 06''" and n = "''Bridge''"
        and t = empty_tables and c = initial_ctx,
        THEN conjunct2, THEN conjunct2, THEN conjunct2, THEN conjunct2, THEN conjunct2, THEN conjunct2, THEN conjunct1] c1
    by (simp add: t)
  have s1: "HasPrefix (bridge_db ! 1) [TAB] \<and> \<not> HasPrefix (bridge_db ! 1) [TAB, TAB]
      \<and> currentBaseClass in_class_ctx \<noteq> []
      \<and> SplitN2 (drop 1 (bridge_db ! 1)) ''  '' = [''04'', ''PCI bridge'']"
    by (simp add: bridge_db_def in_class_ctx_def go_strings_defs)
  have b: "currentBaseClass in_class_ctx = ''06''"
    by (simp add: in_class_ctx_def)
  have scl: "pciSubclasses (fst (loadPCIIds_line (empty_tables, in_class_ctx) (bridge_db ! 1))) ''0604''
       = Some ''PCI bridge''"
    using identifier_keys [where l = "bridge_db ! 1" and c = in_class_ctx and i = "''04''" and n = "''PCI bridge''"
        and t = empty_tables,
        THEN conjunct2, THEN conjunct2, THEN conjunct2, THEN conjunct2, THEN conjunct2, THEN conjunct2, THEN conjunct2] s1
    by (simp add: t b)
  show ?thesis
    using low sub kk kl k1 k2 v1 ven c1 cls s1 scl by blast
qed

text \<open>
  Claim C3 as stated fails for the loader: the vendor id \<^verbatim>\<open>0xABCD\<close> of a database line is
  inserted as it is written, so the table has an entry under that text and none under its
  normal form \<^verbatim>\<open>abcd\<close>, and vendor-name resolution of \<^verbatim>\<open>0xABCD\<close>, which looks up the normal
  form, misses the entry.
\<close>

theorem keys_are_not_normalized:
  "pciVendors (loadPCIIds_lines upper_db empty_tables) ''0xABCD'' = Some ''Example Vendor''
   \<and> pciVendors (loadPCIIds_lines upper_db empty_tables) (normalize_id ''0xABCD'') = None
   \<and> normalize_id ''0xABCD'' = ''abcd''
   \<and> getPCIVendorName (loadPCIIds_lines upper_db empty_tables) ''0xABCD'' = ''abcd''"
  by (simp add: upper_db_def normalize_id_def loader_defs go_strings_defs getPCIVendorName_def)

end
